theory Spec2Isabelle
  imports Main "HOL-Library.Sublist"
begin

section \<open>Values of the JavaScript runtime\<close>

text \<open>
  The four generation steps (\<^verbatim>\<open>summary.ts\<close>, \<^verbatim>\<open>social-posts.ts\<close>, the titles step and
  \<^verbatim>\<open>youtube-timestamps.ts\<close>) are embedded as HOL functions. Conventions:

  \<^item> A JavaScript string is a \<^typ>\<open>string\<close>; one \<^typ>\<open>char\<close> stands for one code unit, so
    \<^verbatim>\<open>s.substring(0, n)\<close> is \<^term>\<open>take n s\<close> and \<^verbatim>\<open>s.length\<close> is \<^term>\<open>length s\<close>. The fixed
    texts of the source are given byte for byte as the source files hold them (a character
    outside ASCII is written as its UTF-8 bytes).
  \<^item> A value produced by \<^verbatim>\<open>JSON.parse\<close> is a \<^verbatim>\<open>json\<close>; \<^verbatim>\<open>undefined\<close> is \<open>None\<close> of an
    option. A JSON number is an \<^typ>\<open>int\<close>: the steps only compare a number with a chapter
    index, test it against zero and test whether it is positive, and in each of these a
    number that is not integral behaves like some integer.
  \<^item> An exception is a value of \<^verbatim>\<open>error\<close>; a step returns \<open>Inl\<close> of the exception that leaves it.
\<close>

datatype json =
    JNull
  | JBool bool
  | JNum int
  | JStr string
  | JArr "json list"
  | JObj "(string \<times> json) list"

datatype error =
    NoChapters \<comment> \<open>the \<^verbatim>\<open>Error\<close> of youtube-timestamps.ts, line 66\<close>
  | TransportFailure \<comment> \<open>a completion call that rejects\<close>
  | TypeError \<comment> \<open>the runtime's own: a property of \<^verbatim>\<open>null\<close> or \<^verbatim>\<open>undefined\<close>, a call of a non-function\<close>

text \<open>Truthiness, as \<^verbatim>\<open>||\<close> and \<^verbatim>\<open>!\<close> test it.\<close>

fun truthy :: "json \<Rightarrow> bool" where
  "truthy JNull = False"
| "truthy (JBool b) = b"
| "truthy (JNum n) = (n \<noteq> 0)"
| "truthy (JStr s) = (s \<noteq> [])"
| "truthy (JArr xs) = True"
| "truthy (JObj kvs) = True"

text \<open>
  \<^verbatim>\<open>v.k\<close> for a parsed value \<open>v\<close> other than \<^verbatim>\<open>null\<close> and a key \<open>k\<close> that no prototype defines
  (\<^verbatim>\<open>titles\<close>, \<^verbatim>\<open>index\<close>, \<^verbatim>\<open>title\<close>): the own property of an object, \<^verbatim>\<open>undefined\<close> otherwise.
\<close>

fun get_prop :: "json \<Rightarrow> string \<Rightarrow> json option" where
  "get_prop (JObj kvs) k = map_of kvs k"
| "get_prop v k = None"

text \<open>\<^verbatim>\<open>v.length\<close> for a truthy parsed value.\<close>

fun length_prop :: "json \<Rightarrow> json option" where
  "length_prop (JArr xs) = Some (JNum (int (length xs)))"
| "length_prop (JStr s) = Some (JNum (int (length s)))"
| "length_prop (JObj kvs) = map_of kvs ''length''"
| "length_prop v = None"

text \<open>
  Whether converting a parsed value to a string (in a template literal) raises a
  \<^verbatim>\<open>TypeError\<close>: an object does when it has an own property \<^verbatim>\<open>toString\<close> (no parsed value is
  callable, and the inherited \<^verbatim>\<open>valueOf\<close> returns the object itself); an array joins the
  strings of its elements.
\<close>

fun toString_raises :: "json \<Rightarrow> bool" where
  "toString_raises (JObj kvs) = (''toString'' \<in> set (map fst kvs))"
| "toString_raises (JArr xs) = list_ex toString_raises xs"
| "toString_raises v = False"

text \<open>
  \<^verbatim>\<open>x > 0\<close> for the value \<open>x\<close> of a \<^verbatim>\<open>length\<close> property whose string conversion does not raise.
  The comparison converts a string or an array to a number through its text; that
  conversion is not defined here, and its outcome is the parameter \<open>positive\<close>.
\<close>

fun gt_zero :: "(json \<Rightarrow> bool) \<Rightarrow> json option \<Rightarrow> bool" where
  "gt_zero positive None = False"
| "gt_zero positive (Some JNull) = False"
| "gt_zero positive (Some (JBool b)) = b"
| "gt_zero positive (Some (JNum n)) = (0 < n)"
| "gt_zero positive (Some (JObj kvs)) = False"
| "gt_zero positive (Some v) = positive v"

text \<open>Whether \<^verbatim>\<open>v.slice\<close> is a function: for arrays and strings only.\<close>

fun has_slice :: "json \<Rightarrow> bool" where
  "has_slice (JArr xs) = True"
| "has_slice (JStr s) = True"
| "has_slice v = False"

text \<open>\<^verbatim>\<open>xs.join(sep)\<close> on an array of strings.\<close>

fun join :: "string \<Rightarrow> string list \<Rightarrow> string" where
  "join sep [] = []"
| "join sep [x] = x"
| "join sep (x # y # ys) = x @ sep @ join sep (y # ys)"

text \<open>
  A number in a template literal: the decimal digits of a natural number (the source
  only prints chapter indices and whole seconds, far below the \<open>10\<^sup>2\<^sup>1\<close> from which
  JavaScript switches to exponents).
\<close>

fun string_of_nat :: "nat \<Rightarrow> string" where
  "string_of_nat n =
     (if n < 10 then [''0123456789'' ! n]
      else string_of_nat (n div 10) @ [''0123456789'' ! (n mod 10)])"

declare string_of_nat.simps [simp del]

section \<open>Transcripts, completion calls and artifacts\<close>

text \<open>
  Modelled from the spec: the type \<^verbatim>\<open>TranscriptWithExtras\<close> (\<^verbatim>\<open>@/types/assemblyai\<close>) is not
  among the sources. The spec gives the shape
  \<^verbatim>\<open>{ text, chapters: [{ start: integer-milliseconds, headline, summary, gist }] }\<close>; the steps
  guard against an absent \<^verbatim>\<open>text\<close> (\<^verbatim>\<open>transcript.text?.substring\<close>) and absent \<^verbatim>\<open>chapters\<close>
  (\<^verbatim>\<open>transcript.chapters || []\<close>), so both are optional here. The field \<^verbatim>\<open>text\<close> is named
  \<open>transcript_text\<close>.
\<close>

record Chapter =
  start :: nat
  headline :: string
  summary :: string
  gist :: string

record TranscriptWithExtras =
  transcript_text :: "string option"
  chapters :: "Chapter list option"

text \<open>
  The argument of \<^verbatim>\<open>step.ai.wrap(id, createCompletion, { model, messages, temperature,
  max_tokens })\<close>; the temperature in hundredths.
\<close>

record request =
  step_id :: string
  model :: string
  system_prompt :: string
  user_prompt :: string
  temperature_x100 :: nat
  max_tokens :: nat

text \<open>
  What a completion call does: it rejects (\<open>Throws\<close>: network, authentication, rate limit)
  or returns a response, of which the steps read \<^verbatim>\<open>choices?.[0]?.message?.content\<close> only.
  \<^verbatim>\<open>JSON.parse\<close> is not implemented here: a content is given by what \<^verbatim>\<open>JSON.parse\<close> makes
  of it.
\<close>

datatype content =
    Absent \<comment> \<open>no choice, no message, or a \<^verbatim>\<open>null\<close> content\<close>
  | Empty \<comment> \<open>the empty string\<close>
  | Unparsable \<comment> \<open>a non-empty string on which \<^verbatim>\<open>JSON.parse\<close> raises\<close>
  | Parsed json \<comment> \<open>a non-empty string that \<^verbatim>\<open>JSON.parse\<close> turns into this value\<close>

datatype completion = Throws | Returns content

text \<open>
  The completion endpoint, as a generation step sees it. The two calls a step can issue
  differ in their \<open>step_id\<close>, so a function of the request covers every behaviour of the
  endpoint during one step.
\<close>

type_synonym endpoint = "request \<Rightarrow> completion"

record Summary =
  full :: string
  bullets :: "string list"
  insights :: "string list"
  tldr :: string

record SocialPosts =
  twitter :: string
  linkedin :: string
  instagram :: string
  tiktok :: string
  youtube :: string
  facebook :: string

record Titles =
  youtubeShort :: "string list"
  youtubeLong :: "string list"
  podcastTitles :: "string list"
  seoKeywords :: "string list"

text \<open>
  The \<^verbatim>\<open>description\<close> of a timestamp is whatever the reply holds as \<^verbatim>\<open>title\<close>, which nothing
  checks to be a string: it is a \<^verbatim>\<open>json\<close>, \<open>JStr\<close> for a string.
\<close>

record YouTubeTimestamp =
  timestamp :: string
  description :: json

text \<open>An entry of \<^verbatim>\<open>chapterData\<close> (youtube-timestamps.ts, lines 77 to 83).\<close>

record ChapterData =
  ch_index :: nat
  ch_timestamp :: nat
  ch_headline :: string
  ch_summary :: string
  ch_gist :: string

text \<open>\<^verbatim>\<open>JSON.parse(content ?? "")\<close>: the empty string is not JSON.\<close>

fun parse_or_empty :: "content \<Rightarrow> json option" where
  "parse_or_empty (Parsed v) = Some v"
| "parse_or_empty c = None"

text \<open>\<^verbatim>\<open>JSON.parse(content || '{"titles":[]}')\<close>.\<close>

fun parse_or_default :: "content \<Rightarrow> json option" where
  "parse_or_default (Parsed v) = Some v"
| "parse_or_default Unparsable = None"
| "parse_or_default c = Some (JObj [(''titles'', JArr [])])"

text \<open>
  The two lines \<^verbatim>\<open>parsed = JSON.parse(content); value = schema.parse(parsed)\<close> inside a
  \<^verbatim>\<open>try\<close>: \<open>None\<close> when either raises. The schema is a parameter of each step.
\<close>

definition parse_and_validate :: "(json \<Rightarrow> 'a option) \<Rightarrow> content \<Rightarrow> 'a option" where
  "parse_and_validate schema c =
     (case parse_or_empty c of None \<Rightarrow> None | Some parsed \<Rightarrow> schema parsed)"

section \<open>The schemas\<close>

text \<open>
  Modelled from the spec: the schemas of \<^verbatim>\<open>@/schemas/ai-outputs\<close> are not among the sources.
  The spec gives the shapes: Summary \<^verbatim>\<open>{ full: string, bullets: string[], insights: string[],
  tldr: string }\<close>; SocialPosts six strings (the 280 characters of \<^verbatim>\<open>twitter\<close> are enforced
  after validation); Titles \<^verbatim>\<open>{ youtubeShort: string[3], youtubeLong: string[3],
  podcastTitles: string[3], seoKeywords: string[5..10] }\<close>.
\<close>

fun as_strings :: "json list \<Rightarrow> string list option" where
  "as_strings [] = Some []"
| "as_strings (JStr s # vs) = (case as_strings vs of None \<Rightarrow> None | Some ss \<Rightarrow> Some (s # ss))"
| "as_strings (v # vs) = None"

definition string_field :: "json \<Rightarrow> string \<Rightarrow> string option" where
  "string_field v k = (case get_prop v k of Some (JStr s) \<Rightarrow> Some s | _ \<Rightarrow> None)"

definition strings_field :: "json \<Rightarrow> string \<Rightarrow> string list option" where
  "strings_field v k = (case get_prop v k of Some (JArr xs) \<Rightarrow> as_strings xs | _ \<Rightarrow> None)"

definition summarySchema :: "json \<Rightarrow> Summary option" where
  "summarySchema v =
     (case (string_field v ''full'', strings_field v ''bullets'',
            strings_field v ''insights'', string_field v ''tldr'') of
        (Some f, Some b, Some i, Some t) \<Rightarrow>
          Some \<lparr>full = f, bullets = b, insights = i, tldr = t\<rparr>
      | _ \<Rightarrow> None)"

definition socialPostsSchema :: "json \<Rightarrow> SocialPosts option" where
  "socialPostsSchema v =
     (case (string_field v ''twitter'', string_field v ''linkedin'',
            string_field v ''instagram'', string_field v ''tiktok'',
            string_field v ''youtube'', string_field v ''facebook'') of
        (Some tw, Some li, Some ig, Some tt, Some yt, Some fb) \<Rightarrow>
          Some \<lparr>twitter = tw, linkedin = li, instagram = ig, tiktok = tt,
                youtube = yt, facebook = fb\<rparr>
      | _ \<Rightarrow> None)"

definition titlesSchema :: "json \<Rightarrow> Titles option" where
  "titlesSchema v =
     (case (strings_field v ''youtubeShort'', strings_field v ''youtubeLong'',
            strings_field v ''podcastTitles'', strings_field v ''seoKeywords'') of
        (Some ys, Some yl, Some pt, Some kw) \<Rightarrow>
          if length ys = 3 \<and> length yl = 3 \<and> length pt = 3
             \<and> 5 \<le> length kw \<and> length kw \<le> 10
          then Some \<lparr>youtubeShort = ys, youtubeLong = yl, podcastTitles = pt,
                     seoKeywords = kw\<rparr>
          else None
      | _ \<Rightarrow> None)"

text \<open>The shape of Titles and the cap of SocialPosts, as predicates on the artifacts.\<close>

definition titles_shape :: "Titles \<Rightarrow> bool" where
  "titles_shape ts =
     (length (youtubeShort ts) = 3 \<and> length (youtubeLong ts) = 3
      \<and> length (podcastTitles ts) = 3
      \<and> 5 \<le> length (seoKeywords ts) \<and> length (seoKeywords ts) \<le> 10)"

definition social_shape :: "SocialPosts \<Rightarrow> bool" where
  "social_shape p = (length (twitter p) \<le> 280)"

text \<open>
  Modelled from the spec: \<^verbatim>\<open>formatTimestamp\<close> (\<^verbatim>\<open>@/lib/format\<close>) is not among the sources.
  The spec gives the format \<^verbatim>\<open>MM:SS\<close> or \<^verbatim>\<open>HH:MM:SS\<close> and writes zero seconds as \<^verbatim>\<open>0:00\<close>;
  the step calls it with \<^verbatim>\<open>{ padHours: false }\<close>. So: minutes and two-digit seconds below
  an hour, hours with two-digit minutes and seconds from an hour on, the leading field
  not padded. The timestamp step takes the formatter as a parameter; this is the one
  the closed examples use.
\<close>

definition pad2 :: "nat \<Rightarrow> string" where
  "pad2 n = (if n < 10 then ''0'' @ string_of_nat n else string_of_nat n)"

definition formatTimestamp :: "nat \<Rightarrow> string" where
  "formatTimestamp s =
     (if s < 3600 then string_of_nat (s div 60) @ '':'' @ pad2 (s mod 60)
      else string_of_nat (s div 3600) @ '':'' @ pad2 ((s mod 3600) div 60)
           @ '':'' @ pad2 (s mod 60))"

section \<open>The fixed texts\<close>

definition SUMMARY_SYSTEM_PROMPT :: string where
  "SUMMARY_SYSTEM_PROMPT = concat
    [''You are an expert podcast content analyst and marketing strategist. Your summaries are engaging, insightful, and highlight the most valuable takeaways for listeners. ALWAYS return STRICT JSON only that matches the shape: { full: string, bullets: string[], insights: string[], tldr: string } '', [CHR 0xE2, CHR 0x80, CHR 0x94], '' no explanation, no extra text.'']"

definition summary_prompt_head :: string where
  "summary_prompt_head = concat
    [''Analyze this podcast transcript in detail and create a comprehensive summary package.\<newline>'',
     ''\<newline>'',
     ''TRANSCRIPT (first 3000 chars):\<newline>'']"

definition summary_prompt_middle :: string where
  "summary_prompt_middle = concat
    [''...\<newline>'',
     ''\<newline>'']"

definition summary_prompt_tail :: string where
  "summary_prompt_tail = concat
    [''\<newline>'',
     ''\<newline>'',
     ''Create a summary with:\<newline>'',
     ''\<newline>'',
     ''1. FULL OVERVIEW (200-300 words):\<newline>'',
     ''   - What is this podcast about?\<newline>'',
     ''   - Who is speaking and what's their perspective?\<newline>'',
     ''   - What are the main themes and arguments?\<newline>'',
     ''   - Why should someone listen to this?\<newline>'',
     ''\<newline>'',
     ''2. KEY BULLET POINTS (5-7 items):\<newline>'',
     ''   - Main topics discussed in order\<newline>'',
     ''   - Important facts or statistics mentioned\<newline>'',
     ''   - Key arguments or positions taken\<newline>'',
     ''   - Notable quotes or moments\<newline>'',
     ''\<newline>'',
     ''3. ACTIONABLE INSIGHTS (3-5 items):\<newline>'',
     ''   - What can listeners learn or apply?\<newline>'',
     ''   - Key takeaways that provide value\<newline>'',
     ''   - Perspectives that challenge conventional thinking\<newline>'',
     ''   - Practical advice or recommendations\<newline>'',
     ''\<newline>'',
     ''4. TL;DR (one compelling sentence):\<newline>'',
     ''   - Capture the essence and hook interest\<newline>'',
     ''   - Make someone want to listen\<newline>'',
     ''\<newline>'',
     ''Be specific, engaging, and valuable. Focus on what makes this podcast unique and worth listening to.'']"

definition summary_repair_prompt :: string where
  "summary_repair_prompt = concat
    [''Previous response wasn't valid JSON. Reply with STRICT JSON only that matches this shape: { full: string, bullets: string[], insights: string[], tldr: string }. No explanation.'']"

definition TITLES_SYSTEM_PROMPT :: string where
  "TITLES_SYSTEM_PROMPT = concat
    [''You are an expert in SEO, content marketing, and viral content creation. You understand what makes titles clickable while maintaining credibility and search rankings. ALWAYS return STRICT JSON only that matches the shape: { youtubeShort: string[], youtubeLong: string[], podcastTitles: string[], seoKeywords: string[] } '', [CHR 0xE2, CHR 0x80, CHR 0x94], '' no explanation, no extra text.'']"

definition titles_prompt_head :: string where
  "titles_prompt_head = concat
    [''Return STRICT JSON ONLY (no explanation, no backticks).\<newline>'',
     ''The JSON must match this shape:\<newline>'',
     ''{\<newline>'',
     ''  \"youtubeShort\": [\"string\",\"string\",\"string\"], // exactly 3, 40-60 chars each\<newline>'',
     ''  \"youtubeLong\": [\"string\",\"string\",\"string\"],  // exactly 3, 70-100 chars each\<newline>'',
     ''  \"podcastTitles\": [\"string\",\"string\",\"string\"], // exactly 3\<newline>'',
     ''  \"seoKeywords\": [\"string\", \"...\"] // 5-10 items\<newline>'',
     ''}\<newline>'',
     ''\<newline>'',
     ''Create optimized titles for this podcast episode.\<newline>'',
     ''\<newline>'',
     ''TRANSCRIPT PREVIEW:\<newline>'']"

definition titles_prompt_middle :: string where
  "titles_prompt_middle = concat
    [''...\<newline>'',
     ''\<newline>'']"

definition titles_prompt_tail :: string where
  "titles_prompt_tail = concat
    [''\<newline>'',
     ''\<newline>'',
     ''Generate 4 types of titles:\<newline>'',
     ''\<newline>'',
     ''1. YOUTUBE SHORT TITLES (exactly 3):\<newline>'',
     ''   - 40-60 characters each\<newline>'',
     ''   - Hook-focused, curiosity-driven\<newline>'',
     ''   - Clickable but not clickbait\<newline>'',
     ''   - Use power words and numbers when relevant\<newline>'',
     ''\<newline>'',
     ''2. YOUTUBE LONG TITLES (exactly 3):\<newline>'',
     ''   - 70-100 characters each\<newline>'',
     ''   - Include SEO keywords naturally\<newline>'',
     ''   - Descriptive and informative\<newline>'',
     ''   - Format: \"Main Topic: Subtitle | Context or Value Prop\"\<newline>'',
     ''\<newline>'',
     ''3. PODCAST EPISODE TITLES (exactly 3):\<newline>'',
     ''   - Creative, memorable titles\<newline>'',
     ''   - Balance intrigue with clarity\<newline>'',
     ''   - Good for RSS feeds and directories\<newline>'',
     ''   - Can use \"Episode #\" format or standalone\<newline>'',
     ''\<newline>'',
     ''4. SEO KEYWORDS (5-10):\<newline>'',
     ''   - High-traffic search terms\<newline>'',
     ''   - Relevant to podcast content\<newline>'',
     ''   - Mix of broad and niche terms\<newline>'',
     ''   - Focus on what people actually search for\<newline>'',
     ''\<newline>'',
     ''Make titles compelling, accurate, and optimized for discovery.'']"

definition titles_repair_prompt :: string where
  "titles_repair_prompt = concat
    [''Previous response wasn't valid JSON. Reply with STRICT JSON only matching keys: youtubeShort (3 items), youtubeLong (3 items), podcastTitles (3 items), seoKeywords (5-10 items). No explanation.'']"

definition SOCIAL_SYSTEM_PROMPT :: string where
  "SOCIAL_SYSTEM_PROMPT = concat
    [''You are a viral social media marketing expert who understands each platform's unique audience, tone, and best practices. You create platform-optimized content that drives engagement and grows audiences. ALWAYS return valid JSON only, with the exact keys: twitter, linkedin, instagram, tiktok, youtube, facebook.'']"

definition social_prompt_head :: string where
  "social_prompt_head = concat
    [''Return STRICT JSON ONLY (no explanation, no backticks).\<newline>'',
     ''The JSON must match this shape:\<newline>'',
     ''\<newline>'',
     ''{\<newline>'',
     ''  \"twitter\": \"string (<=280 chars)\",\<newline>'',
     ''  \"linkedin\": \"string\",\<newline>'',
     ''  \"instagram\": \"string\",\<newline>'',
     ''  \"tiktok\": \"string\",\<newline>'',
     ''  \"youtube\": \"string\",\<newline>'',
     ''  \"facebook\": \"string\"\<newline>'',
     ''}\<newline>'',
     ''\<newline>'',
     ''PODCAST SUMMARY:\<newline>'']"

definition social_prompt_middle :: string where
  "social_prompt_middle = concat
    [''\<newline>'',
     ''\<newline>'',
     ''KEY TOPICS DISCUSSED:\<newline>'']"

definition social_prompt_tail :: string where
  "social_prompt_tail = concat
    [''\<newline>'',
     ''\<newline>'',
     ''Now generate 6 unique posts optimized for each platform with the following constraints:\<newline>'',
     ''\<newline>'',
     ''1. TWITTER/X (MAXIMUM 280 characters - STRICT LIMIT):\<newline>'',
     ''   - Start with a hook that stops scrolling\<newline>'',
     ''   - Include the main value proposition or insight\<newline>'',
     ''   - Make it thread-worthy\<newline>'',
     ''   - Conversational, punchy tone\<newline>'',
     ''   - Can include emojis but use sparingly\<newline>'',
     ''   - CRITICAL: Must be 280 characters or less, including spaces and emojis\<newline>'',
     ''\<newline>'',
     ''2. LINKEDIN (1-2 paragraphs):\<newline>'',
     ''   - Professional, thought-leadership tone\<newline>'',
     ''   - Lead with an insight, question, or stat\<newline>'',
     ''   - Provide business/career value\<newline>'',
     ''   - End with an engagement question or CTA\<newline>'',
     ''   - Avoid excessive emojis\<newline>'',
     ''\<newline>'',
     ''3. INSTAGRAM (caption):\<newline>'',
     ''   - Engaging storytelling approach\<newline>'',
     ''   - Use emojis strategically (2-4 max)\<newline>'',
     ''   - Build community connection\<newline>'',
     ''   - Include call-to-action\<newline>'',
     ''   - Personal and relatable\<newline>'',
     ''\<newline>'',
     ''4. TIKTOK (short caption):\<newline>'',
     ''   - Gen Z friendly, energetic tone\<newline>'',
     ''   - Use trending language/slang\<newline>'',
     ''   - Very concise and punchy\<newline>'',
     ''   - Create FOMO or curiosity\<newline>'',
     ''   - Emojis welcome\<newline>'',
     ''\<newline>'',
     ''5. YOUTUBE (detailed description):\<newline>'',
     ''   - SEO-friendly, keyword-rich\<newline>'',
     ''   - Explain what viewers will learn\<newline>'',
     ''   - Professional but engaging\<newline>'',
     ''   - Include episode highlights\<newline>'',
     ''   - Can be longer (2-3 paragraphs)\<newline>'',
     ''\<newline>'',
     ''6. FACEBOOK (2-3 paragraphs):\<newline>'',
     ''   - Conversational, relatable tone\<newline>'',
     ''   - Shareable content approach\<newline>'',
     ''   - Community-focused\<newline>'',
     ''   - End with question or discussion prompt\<newline>'',
     ''   - Mix of personal and informative\<newline>'',
     ''\<newline>'',
     ''Return only JSON, matching the schema exactly.'']"

definition social_repair_prompt :: string where
  "social_repair_prompt = concat
    [''The previous response was not valid JSON. Reply with STRICT JSON only, matching keys: twitter, linkedin, instagram, tiktok, youtube, facebook. No explanation.'']"

definition fallback_twitter :: string where
  "fallback_twitter = concat
    [''New podcast episode!'']"

definition fallback_linkedin :: string where
  "fallback_linkedin = concat
    [''Check out our latest podcast.'']"

definition fallback_instagram :: string where
  "fallback_instagram = concat
    [''New episode out now! '', [CHR 0xEF, CHR 0xA3, CHR 0xBF], [CHR 0xC3, CHR 0xBC], [CHR 0xC3, CHR 0xA9], [CHR 0xC3, CHR 0xB4], [CHR 0xC3, CHR 0x94], [CHR 0xE2, CHR 0x88, CHR 0x8F], [CHR 0xC3, CHR 0xA8]]"

definition fallback_tiktok :: string where
  "fallback_tiktok = concat
    [''New podcast!'']"

definition fallback_youtube :: string where
  "fallback_youtube = concat
    [''Watch our latest episode.'']"

definition fallback_facebook :: string where
  "fallback_facebook = concat
    [''New podcast available!'']"

definition social_error_text :: string where
  "social_error_text = concat
    [[CHR 0xE2, CHR 0x80, CHR 0x9A], [CHR 0xC3, CHR 0xB6], [CHR 0xE2, CHR 0x80, CHR 0xA0], [CHR 0xC3, CHR 0x94], [CHR 0xE2, CHR 0x88, CHR 0x8F], [CHR 0xC3, CHR 0xA8], '' Error generating social post. Check logs for details.'']"

definition youtube_prompt_head :: string where
  "youtube_prompt_head = concat
    [''You are a YouTube content optimization expert. Create SHORT CHAPTER TITLES for a video.\<newline>'',
     ''\<newline>'',
     ''CRITICAL INSTRUCTIONS:\<newline>'',
     ''- DO NOT copy the transcript text\<newline>'',
     ''- DO NOT write full sentences\<newline>'',
     ''- Create 3-6 word TITLES only\<newline>'',
     ''- Think of these as chapter headings, not subtitles\<newline>'',
     ''\<newline>'',
     ''I have '']"

definition youtube_prompt_middle :: string where
  "youtube_prompt_middle = concat
    ['' chapters with timestamps. For each one, create a SHORT, CATCHY TITLE.\<newline>'',
     ''\<newline>'',
     ''CHAPTERS:\<newline>'']"

definition youtube_prompt_tail :: string where
  "youtube_prompt_tail = concat
    [''\<newline>'',
     ''\<newline>'',
     ''YOUR TASK:\<newline>'',
     ''Transform each chapter into a 3-6 word YouTube chapter title.\<newline>'',
     ''\<newline>'',
     ''EXAMPLES OF GOOD TITLES:\<newline>'',
     [CHR 0xE2, CHR 0x9C, CHR 0x93], '' \"Introduction to N8N Automation\" (5 words, descriptive title)\<newline>'',
     [CHR 0xE2, CHR 0x9C, CHR 0x93], '' \"Setting Up Your Account\" (4 words, action-oriented)\<newline>'',
     [CHR 0xE2, CHR 0x9C, CHR 0x93], '' \"Telegram Bot Creation\" (3 words, clear and concise)\<newline>'',
     [CHR 0xE2, CHR 0x9C, CHR 0x93], '' \"Building Multi-Agent Workflows\" (3 words, technical but clear)\<newline>'',
     [CHR 0xE2, CHR 0x9C, CHR 0x93], '' \"Testing the News Agent\" (4 words, specific feature)\<newline>'',
     ''\<newline>'',
     ''EXAMPLES OF BAD RESPONSES (DO NOT DO THIS):\<newline>'',
     [CHR 0xE2, CHR 0x9C, CHR 0x97], '' \"Today we are diving into n8n one of the most underrated\" (transcript excerpt)\<newline>'',
     [CHR 0xE2, CHR 0x9C, CHR 0x97], '' \"One click setup with n8n com allows you to get\" (full sentence from transcript)\<newline>'',
     [CHR 0xE2, CHR 0x9C, CHR 0x97], '' \"So we want to give Sarah some instructions so she knows\" (conversational transcript)\<newline>'',
     ''\<newline>'',
     ''Return ONLY valid JSON in this exact format:\<newline>'',
     ''{\<newline>'',
     ''  \"titles\": [\<newline>'',
     ''    {\"index\": 0, \"title\": \"Introduction to N8N Automation\"},\<newline>'',
     ''    {\"index\": 1, \"title\": \"Setting Up Your Account\"},\<newline>'',
     ''    {\"index\": 2, \"title\": \"Building Your First Bot\"}\<newline>'',
     ''  ]\<newline>'',
     ''}\<newline>'',
     ''\<newline>'',
     ''Remember: Create TITLES, not transcript excerpts!'']"

definition YOUTUBE_SYSTEM_PROMPT :: string where
  "YOUTUBE_SYSTEM_PROMPT = concat
    [''You are a YouTube content expert who creates SHORT, DESCRIPTIVE TITLES for video chapters. CRITICAL: You create TITLES (like 'Introduction to AI'), NOT transcript text or full sentences. Always respond with valid JSON only.'']"

definition youtube_repair_system_prompt :: string where
  "youtube_repair_system_prompt = concat
    [''You are a YouTube content expert. Previous response was not valid JSON. Reply with STRICT JSON only matching { titles: [{ index: number, title: string }] }. No explanation.'']"

definition youtube_repair_prompt :: string where
  "youtube_repair_prompt = concat
    [''Previous output was malformed. Reply with valid JSON only. Use the same chapter order and provide a 'titles' array with objects { index, title }.'']"

definition summary_error_full :: string where
  "summary_error_full = concat
    [[CHR 0xE2, CHR 0x9A, CHR 0xA0], [CHR 0xEF, CHR 0xB8, CHR 0x8F], '' Error generating summary with GROQ. Please check logs or try again.'']"

definition titles_error_short :: string where
  "titles_error_short = concat
    [[CHR 0xE2, CHR 0x9A, CHR 0xA0], [CHR 0xEF, CHR 0xB8, CHR 0x8F], '' Title generation failed'']"

definition titles_error_long :: string where
  "titles_error_long = concat
    [[CHR 0xE2, CHR 0x9A, CHR 0xA0], [CHR 0xEF, CHR 0xB8, CHR 0x8F], '' Title generation failed - check logs'']"

section \<open>Summary (summary.ts)\<close>

text \<open>
  \<^verbatim>\<open>buildSummaryPrompt\<close>, lines 42 to 81. \<^verbatim>\<open>transcript.text.substring\<close> and
  \<^verbatim>\<open>transcript.chapters.length\<close> raise a \<^verbatim>\<open>TypeError\<close> on an absent field.
\<close>

definition summary_chapter_line :: "nat \<times> Chapter \<Rightarrow> string" where
  "summary_chapter_line = (\<lambda>(idx, ch).
     string_of_nat (idx + 1) @ ''. '' @ headline ch @ '' - '' @ summary ch)"

definition buildSummaryPrompt :: "TranscriptWithExtras \<Rightarrow> error + string" where
  "buildSummaryPrompt transcript =
     (case transcript_text transcript of
        None \<Rightarrow> Inl TypeError
      | Some txt \<Rightarrow>
          (case chapters transcript of
             None \<Rightarrow> Inl TypeError
           | Some chs \<Rightarrow>
               Inr (summary_prompt_head @ take 3000 txt @ summary_prompt_middle
                    @ (if length chs > 0
                       then ''\<newline>AUTO-DETECTED CHAPTERS:\<newline>''
                            @ join ''\<newline>'' (map summary_chapter_line (enumerate 0 chs))
                       else '''')
                    @ summary_prompt_tail)))"

definition summary_request :: "string \<Rightarrow> request" where
  "summary_request prompt =
     \<lparr>step_id = ''generate-summary-with-groq'', model = ''llama-3.1-70b-versatile'',
      system_prompt = SUMMARY_SYSTEM_PROMPT, user_prompt = prompt,
      temperature_x100 = 20, max_tokens = 800\<rparr>"

definition summary_repair_request :: request where
  "summary_repair_request =
     \<lparr>step_id = ''repair-summary-json'', model = ''llama-3.1-70b-versatile'',
      system_prompt = SUMMARY_SYSTEM_PROMPT, user_prompt = summary_repair_prompt,
      temperature_x100 = 0, max_tokens = 600\<rparr>"

text \<open>The value of the inner \<^verbatim>\<open>catch\<close>, lines 159 to 164, from the transcript's text.\<close>

definition summary_fallback :: "string \<Rightarrow> Summary" where
  "summary_fallback txt =
     \<lparr>full = take 500 txt, bullets = [''Full transcript available''],
      insights = [''See transcript''], tldr = take 200 txt\<rparr>"

text \<open>The value of the outer \<^verbatim>\<open>catch\<close>, lines 173 to 178.\<close>

definition summary_error_fallback :: Summary where
  "summary_error_fallback =
     \<lparr>full = summary_error_full,
      bullets = [''Summary generation failed - see full transcript''],
      insights = [''Error occurred during AI generation''],
      tldr = ''Summary generation failed''\<rparr>"

text \<open>
  The inner \<^verbatim>\<open>catch\<close> of \<^verbatim>\<open>generateSummary\<close> reads \<^verbatim>\<open>transcript.text\<close> again; a \<^verbatim>\<open>TypeError\<close>
  there would reach the outer \<^verbatim>\<open>catch\<close>.
\<close>

definition summary_repair_failed :: "TranscriptWithExtras \<Rightarrow> Summary" where
  "summary_repair_failed transcript =
     (case transcript_text transcript of
        None \<Rightarrow> summary_error_fallback
      | Some txt \<Rightarrow> summary_fallback txt)"

text \<open>
  \<^verbatim>\<open>generateSummary\<close>, lines 96 to 180: the result, and the completion calls issued, in
  order.
\<close>

definition generateSummary ::
  "(json \<Rightarrow> Summary option) \<Rightarrow> endpoint \<Rightarrow> TranscriptWithExtras
     \<Rightarrow> (error + Summary) \<times> request list" where
  "generateSummary schema ep transcript =
     (case buildSummaryPrompt transcript of
        Inl e \<Rightarrow> (Inr summary_error_fallback, [])
      | Inr prompt \<Rightarrow>
          (case ep (summary_request prompt) of
             Throws \<Rightarrow> (Inr summary_error_fallback, [summary_request prompt])
           | Returns c \<Rightarrow>
               (case parse_and_validate schema c of
                  Some s \<Rightarrow> (Inr s, [summary_request prompt])
                | None \<Rightarrow>
                    (case ep summary_repair_request of
                       Throws \<Rightarrow>
                         (Inr (summary_repair_failed transcript),
                          [summary_request prompt, summary_repair_request])
                     | Returns c2 \<Rightarrow>
                         (case parse_and_validate schema c2 of
                            Some s \<Rightarrow>
                              (Inr s, [summary_request prompt, summary_repair_request])
                          | None \<Rightarrow>
                              (Inr (summary_repair_failed transcript),
                               [summary_request prompt, summary_repair_request]))))))"

section \<open>Titles\<close>

text \<open>\<^verbatim>\<open>buildTitlesPrompt\<close>, lines 43 to 93 of the titles step.\<close>

definition topic_line :: "nat \<times> Chapter \<Rightarrow> string" where
  "topic_line = (\<lambda>(idx, ch). string_of_nat (idx + 1) @ ''. '' @ headline ch)"

definition buildTitlesPrompt :: "TranscriptWithExtras \<Rightarrow> error + string" where
  "buildTitlesPrompt transcript =
     (case transcript_text transcript of
        None \<Rightarrow> Inl TypeError
      | Some txt \<Rightarrow>
          (case chapters transcript of
             None \<Rightarrow> Inl TypeError
           | Some chs \<Rightarrow>
               Inr (titles_prompt_head @ take 2000 txt @ titles_prompt_middle
                    @ (if length chs > 0
                       then ''MAIN TOPICS COVERED:\<newline>''
                            @ join ''\<newline>'' (map topic_line (enumerate 0 chs))
                       else '''')
                    @ titles_prompt_tail)))"

definition titles_request :: "string \<Rightarrow> request" where
  "titles_request prompt =
     \<lparr>step_id = ''generate-titles-with-groq'', model = ''llama-3.1-70b-versatile'',
      system_prompt = TITLES_SYSTEM_PROMPT, user_prompt = prompt,
      temperature_x100 = 20, max_tokens = 400\<rparr>"

definition titles_repair_request :: request where
  "titles_repair_request =
     \<lparr>step_id = ''repair-titles-json'', model = ''llama-3.1-70b-versatile'',
      system_prompt = TITLES_SYSTEM_PROMPT, user_prompt = titles_repair_prompt,
      temperature_x100 = 0, max_tokens = 300\<rparr>"

text \<open>The value of the inner \<^verbatim>\<open>catch\<close>, lines 170 to 175.\<close>

definition titles_fallback :: Titles where
  "titles_fallback =
     \<lparr>youtubeShort = [''Podcast Episode'', ''New Podcast Episode'', ''Episode Highlights''],
      youtubeLong = [''Podcast Episode - Full Discussion'',
                     ''Deep Dive: Episode Topic | Insights'',
                     ''Episode Title: Expert Conversation''],
      podcastTitles = [''New Episode'', ''Episode Title'', ''Latest Episode''],
      seoKeywords = [''podcast'', ''episode'', ''discussion'', ''interview'', ''insights'']\<rparr>"

text \<open>The value of the outer \<^verbatim>\<open>catch\<close>, lines 184 to 189.\<close>

definition titles_error_fallback :: Titles where
  "titles_error_fallback =
     \<lparr>youtubeShort = [titles_error_short], youtubeLong = [titles_error_long],
      podcastTitles = [titles_error_short], seoKeywords = [''error'']\<rparr>"

text \<open>\<^verbatim>\<open>generateTitles\<close>, lines 107 to 191.\<close>

definition generateTitles ::
  "(json \<Rightarrow> Titles option) \<Rightarrow> endpoint \<Rightarrow> TranscriptWithExtras
     \<Rightarrow> (error + Titles) \<times> request list" where
  "generateTitles schema ep transcript =
     (case buildTitlesPrompt transcript of
        Inl e \<Rightarrow> (Inr titles_error_fallback, [])
      | Inr prompt \<Rightarrow>
          (case ep (titles_request prompt) of
             Throws \<Rightarrow> (Inr titles_error_fallback, [titles_request prompt])
           | Returns c \<Rightarrow>
               (case parse_and_validate schema c of
                  Some ts \<Rightarrow> (Inr ts, [titles_request prompt])
                | None \<Rightarrow>
                    (case ep titles_repair_request of
                       Throws \<Rightarrow>
                         (Inr titles_fallback, [titles_request prompt, titles_repair_request])
                     | Returns c2 \<Rightarrow>
                         (case parse_and_validate schema c2 of
                            Some ts \<Rightarrow>
                              (Inr ts, [titles_request prompt, titles_repair_request])
                          | None \<Rightarrow>
                              (Inr titles_fallback,
                               [titles_request prompt, titles_repair_request]))))))"

section \<open>Social posts (social-posts.ts)\<close>

text \<open>
  \<^verbatim>\<open>buildSocialPrompt\<close>, lines 48 to 118. Every access is guarded (\<^verbatim>\<open>?.\<close>), so it never
  raises. The summary is \<^verbatim>\<open>chapters?.[0]?.summary || text?.substring(0, 500) || "No summary
  available."\<close>, the topics \<^verbatim>\<open>chapters?.slice(0, 5).map(...).join("\n") || "See transcript"\<close>.
\<close>

definition or_else :: "string \<Rightarrow> string \<Rightarrow> string" where
  "or_else a b = (if a \<noteq> [] then a else b)"

definition social_summary :: "TranscriptWithExtras \<Rightarrow> string" where
  "social_summary transcript =
     or_else (case chapters transcript of Some (ch # chs) \<Rightarrow> summary ch | _ \<Rightarrow> [])
       (or_else (case transcript_text transcript of Some txt \<Rightarrow> take 500 txt | None \<Rightarrow> [])
          ''No summary available.'')"

definition social_topics :: "TranscriptWithExtras \<Rightarrow> string" where
  "social_topics transcript =
     or_else (case chapters transcript of
                Some chs \<Rightarrow> join ''\<newline>'' (map topic_line (enumerate 0 (take 5 chs)))
              | None \<Rightarrow> [])
       ''See transcript''"

definition buildSocialPrompt :: "TranscriptWithExtras \<Rightarrow> string" where
  "buildSocialPrompt transcript =
     social_prompt_head @ social_summary transcript @ social_prompt_middle
     @ social_topics transcript @ social_prompt_tail"

definition social_request :: "string \<Rightarrow> request" where
  "social_request prompt =
     \<lparr>step_id = ''generate-social-posts-with-groq'', model = ''llama-3.1-70b-versatile'',
      system_prompt = SOCIAL_SYSTEM_PROMPT, user_prompt = prompt,
      temperature_x100 = 20, max_tokens = 800\<rparr>"

definition social_repair_request :: request where
  "social_repair_request =
     \<lparr>step_id = ''repair-social-posts-json'', model = ''llama-3.1-70b-versatile'',
      system_prompt = SOCIAL_SYSTEM_PROMPT, user_prompt = social_repair_prompt,
      temperature_x100 = 0, max_tokens = 600\<rparr>"

text \<open>The value of the inner \<^verbatim>\<open>catch\<close>, lines 194 to 201.\<close>

definition social_fallback :: SocialPosts where
  "social_fallback =
     \<lparr>twitter = fallback_twitter, linkedin = fallback_linkedin,
      instagram = fallback_instagram, tiktok = fallback_tiktok,
      youtube = fallback_youtube, facebook = fallback_facebook\<rparr>"

text \<open>The value of the outer \<^verbatim>\<open>catch\<close>, lines 218 to 225.\<close>

definition social_error_fallback :: SocialPosts where
  "social_error_fallback =
     \<lparr>twitter = social_error_text, linkedin = social_error_text,
      instagram = social_error_text, tiktok = social_error_text,
      youtube = social_error_text, facebook = social_error_text\<rparr>"

text \<open>The safety check of lines 205 to 211.\<close>

definition enforce_twitter_limit :: "SocialPosts \<Rightarrow> SocialPosts" where
  "enforce_twitter_limit socialPosts =
     (if length (twitter socialPosts) > 280
      then socialPosts\<lparr>twitter := take 277 (twitter socialPosts) @ ''...''\<rparr>
      else socialPosts)"

text \<open>\<^verbatim>\<open>generateSocialPosts\<close>, lines 132 to 227.\<close>

definition generateSocialPosts ::
  "(json \<Rightarrow> SocialPosts option) \<Rightarrow> endpoint \<Rightarrow> TranscriptWithExtras
     \<Rightarrow> (error + SocialPosts) \<times> request list" where
  "generateSocialPosts schema ep transcript =
     (let first = social_request (buildSocialPrompt transcript) in
      case ep first of
        Throws \<Rightarrow> (Inr social_error_fallback, [first])
      | Returns c \<Rightarrow>
          (case parse_and_validate schema c of
             Some p \<Rightarrow> (Inr (enforce_twitter_limit p), [first])
           | None \<Rightarrow>
               (case ep social_repair_request of
                  Throws \<Rightarrow>
                    (Inr (enforce_twitter_limit social_fallback),
                     [first, social_repair_request])
                | Returns c2 \<Rightarrow>
                    (case parse_and_validate schema c2 of
                       Some p \<Rightarrow>
                         (Inr (enforce_twitter_limit p), [first, social_repair_request])
                     | None \<Rightarrow>
                         (Inr (enforce_twitter_limit social_fallback),
                          [first, social_repair_request])))))"

section \<open>YouTube timestamps (youtube-timestamps.ts)\<close>

text \<open>\<^verbatim>\<open>chapterData\<close>, lines 77 to 83, and the prompt, lines 87 to 129.\<close>

definition chapterData_of :: "Chapter list \<Rightarrow> ChapterData list" where
  "chapterData_of chaptersToUse =
     map (\<lambda>(idx, chapter).
            \<lparr>ch_index = idx, ch_timestamp = start chapter div 1000,
             ch_headline = headline chapter, ch_summary = summary chapter,
             ch_gist = gist chapter\<rparr>)
         (enumerate 0 chaptersToUse)"

definition youtube_chapter_block :: "nat \<times> ChapterData \<Rightarrow> string" where
  "youtube_chapter_block = (\<lambda>(idx, ch).
     ''Chapter '' @ string_of_nat idx @ '': ['' @ string_of_nat (ch_timestamp ch)
     @ ''s]\<newline>Context: '' @ ch_headline ch @ ''\<newline>Summary: '' @ ch_summary ch)"

definition youtube_prompt :: "ChapterData list \<Rightarrow> string" where
  "youtube_prompt chapterData =
     youtube_prompt_head @ string_of_nat (length chapterData) @ youtube_prompt_middle
     @ join ''\<newline>\<newline>'' (map youtube_chapter_block (enumerate 0 chapterData))
     @ youtube_prompt_tail"

definition youtube_request :: "string \<Rightarrow> request" where
  "youtube_request prompt =
     \<lparr>step_id = ''generate-youtube-titles-with-groq'', model = ''llama-3.1-70b-versatile'',
      system_prompt = YOUTUBE_SYSTEM_PROMPT, user_prompt = prompt,
      temperature_x100 = 15, max_tokens = 1500\<rparr>"

definition youtube_repair_request :: request where
  "youtube_repair_request =
     \<lparr>step_id = ''repair-youtube-titles-json'', model = ''llama-3.1-70b-versatile'',
      system_prompt = youtube_repair_system_prompt, user_prompt = youtube_repair_prompt,
      temperature_x100 = 0, max_tokens = 800\<rparr>"

text \<open>\<^verbatim>\<open>parsed.titles || []\<close>, for a parsed value other than \<^verbatim>\<open>null\<close>.\<close>

definition titles_or_empty :: "json \<Rightarrow> json" where
  "titles_or_empty parsed =
     (case get_prop parsed ''titles'' of
        None \<Rightarrow> JArr []
      | Some v \<Rightarrow> if truthy v then v else JArr [])"

text \<open>
  The \<^verbatim>\<open>try\<close> block of lines 164 to 170: the value of \<^verbatim>\<open>aiTitles\<close> when the block completes,
  \<open>None\<close> when it raises. It raises when \<^verbatim>\<open>JSON.parse\<close> does, when \<^verbatim>\<open>parsed\<close> is \<^verbatim>\<open>null\<close>, when
  the template literal of line 167 cannot convert \<^verbatim>\<open>aiTitles.length\<close>, and when line 169
  calls \<^verbatim>\<open>aiTitles.slice\<close> on a value that has none.
\<close>

definition first_attempt :: "(json \<Rightarrow> bool) \<Rightarrow> content \<Rightarrow> json option" where
  "first_attempt positive c =
     (case parse_or_default c of
        None \<Rightarrow> None
      | Some JNull \<Rightarrow> None
      | Some parsed \<Rightarrow>
          (let aiTitles = titles_or_empty parsed in
           if (case length_prop aiTitles of None \<Rightarrow> False | Some l \<Rightarrow> toString_raises l)
           then None
           else if gt_zero positive (length_prop aiTitles) \<and> \<not> has_slice aiTitles
           then None
           else Some aiTitles))"

text \<open>
  The repair of lines 175 to 205: the value of \<^verbatim>\<open>aiTitles\<close> after it. Whatever raises
  inside (the call, \<^verbatim>\<open>JSON.parse\<close>, \<^verbatim>\<open>null.titles\<close>, the template literal of line 201) leaves
  the empty array.
\<close>

definition repair_attempt :: "endpoint \<Rightarrow> json" where
  "repair_attempt ep =
     (case ep youtube_repair_request of
        Throws \<Rightarrow> JArr []
      | Returns c \<Rightarrow>
          (case parse_or_empty c of
             None \<Rightarrow> JArr []
           | Some JNull \<Rightarrow> JArr []
           | Some parsed \<Rightarrow>
               (let aiTitles = titles_or_empty parsed in
                if (case length_prop aiTitles of None \<Rightarrow> False | Some l \<Rightarrow> toString_raises l)
                then JArr []
                else aiTitles)))"

text \<open>
  \<^verbatim>\<open>aiTitles.find((t) => t.index === chapter.index)\<close> on an array: the first entry whose
  \<^verbatim>\<open>index\<close> is the number; reading \<^verbatim>\<open>index\<close> of a \<^verbatim>\<open>null\<close> entry met on the way raises.
\<close>

fun find_title :: "json list \<Rightarrow> nat \<Rightarrow> error + json option" where
  "find_title [] i = Inr None"
| "find_title (t # ts) i =
     (if t = JNull then Inl TypeError
      else if get_prop t ''index'' = Some (JNum (int i)) then Inr (Some t)
      else find_title ts i)"

text \<open>The callback of line 209: \<^verbatim>\<open>aiTitle?.title || chapter.headline\<close>.\<close>

definition title_or_headline :: "json option \<Rightarrow> string \<Rightarrow> json" where
  "title_or_headline aiTitle hl =
     (case aiTitle of
        None \<Rightarrow> JStr hl
      | Some t \<Rightarrow>
          (case get_prop t ''title'' of
             None \<Rightarrow> JStr hl
           | Some v \<Rightarrow> if truthy v then v else JStr hl))"

definition describe :: "json \<Rightarrow> ChapterData \<Rightarrow> error + (nat \<times> json)" where
  "describe aiTitles chapter =
     (case aiTitles of
        JArr ts \<Rightarrow>
          (case find_title ts (ch_index chapter) of
             Inl e \<Rightarrow> Inl e
           | Inr aiTitle \<Rightarrow>
               Inr (ch_timestamp chapter, title_or_headline aiTitle (ch_headline chapter)))
      | _ \<Rightarrow> Inl TypeError)"

text \<open>\<^verbatim>\<open>xs.map(f)\<close> for a callback that can raise: the first exception ends the loop.\<close>

fun map_raising :: "('a \<Rightarrow> error + 'b) \<Rightarrow> 'a list \<Rightarrow> error + 'b list" where
  "map_raising f [] = Inr []"
| "map_raising f (x # xs) =
     (case f x of
        Inl e \<Rightarrow> Inl e
      | Inr y \<Rightarrow> (case map_raising f xs of Inl e \<Rightarrow> Inl e | Inr ys \<Rightarrow> Inr (y # ys)))"

text \<open>
  Lines 208 to 239: the entries, the log line of lines 226 to 229 (its template literal
  converts the first three descriptions to strings) and the formatting.
\<close>

definition combine ::
  "(nat \<Rightarrow> string) \<Rightarrow> json \<Rightarrow> ChapterData list \<Rightarrow> error + YouTubeTimestamp list" where
  "combine fmt aiTitles chapterData =
     (case map_raising (describe aiTitles) chapterData of
        Inl e \<Rightarrow> Inl e
      | Inr aiTimestamps \<Rightarrow>
          if list_ex (\<lambda>item. toString_raises (snd item)) (take 3 aiTimestamps)
          then Inl TypeError
          else Inr (map (\<lambda>item. \<lparr>timestamp = fmt (fst item), description = snd item\<rparr>)
                      aiTimestamps))"

text \<open>
  \<^verbatim>\<open>generateYouTubeTimestamps\<close>, lines 53 to 240. \<open>fmt\<close> is
  \<^verbatim>\<open>formatTimestamp(_, { padHours: false })\<close>. The first completion call is outside every
  \<^verbatim>\<open>try\<close>.
\<close>

definition generateYouTubeTimestamps ::
  "(json \<Rightarrow> bool) \<Rightarrow> (nat \<Rightarrow> string) \<Rightarrow> endpoint \<Rightarrow> TranscriptWithExtras
     \<Rightarrow> (error + YouTubeTimestamp list) \<times> request list" where
  "generateYouTubeTimestamps positive fmt ep transcript =
     (let chs = (case chapters transcript of None \<Rightarrow> [] | Some cs \<Rightarrow> cs) in
      if length chs = 0 then (Inl NoChapters, [])
      else
        (let chaptersToUse = take 100 chs;
             chapterData = chapterData_of chaptersToUse;
             first = youtube_request (youtube_prompt chapterData) in
         case ep first of
           Throws \<Rightarrow> (Inl TransportFailure, [first])
         | Returns c \<Rightarrow>
             (case first_attempt positive c of
                Some aiTitles \<Rightarrow> (combine fmt aiTitles chapterData, [first])
              | None \<Rightarrow>
                  (combine fmt (repair_attempt ep) chapterData,
                   [first, youtube_repair_request]))))"

text \<open>
  The value of \<^verbatim>\<open>aiTitles\<close> at line 208, when the first completion call returned the
  content \<open>c\<close>: what the \<^verbatim>\<open>try\<close> block left, or else what the repair left.
\<close>

definition aiTitles_of :: "(json \<Rightarrow> bool) \<Rightarrow> endpoint \<Rightarrow> content \<Rightarrow> json" where
  "aiTitles_of positive ep c =
     (case first_attempt positive c of
        Some aiTitles \<Rightarrow> aiTitles
      | None \<Rightarrow> repair_attempt ep)"

text \<open>
  The titles hold a title for chapter slot \<open>i\<close>: some entry has the index \<open>i\<close> and a truthy
  \<^verbatim>\<open>title\<close>.
\<close>

definition has_title :: "json \<Rightarrow> nat \<Rightarrow> bool" where
  "has_title aiTitles i =
     (case aiTitles of
        JArr ts \<Rightarrow>
          list_ex (\<lambda>e. get_prop e ''index'' = Some (JNum (int i))
                      \<and> (case get_prop e ''title'' of None \<Rightarrow> False | Some v \<Rightarrow> truthy v))
            ts
      | _ \<Rightarrow> False)"

text \<open>
  Titles that lines 208 to 229 can read without a \<^verbatim>\<open>TypeError\<close>: an array, no entry of which
  is \<^verbatim>\<open>null\<close>, and no \<^verbatim>\<open>title\<close> of which fails to convert to a string. An array of
  \<^verbatim>\<open>{ index: number, title: string }\<close>, the type the source declares for \<^verbatim>\<open>aiTitles\<close>, is one.
\<close>

definition safe_entry :: "json \<Rightarrow> bool" where
  "safe_entry e =
     (e \<noteq> JNull
      \<and> (case get_prop e ''title'' of None \<Rightarrow> True | Some v \<Rightarrow> \<not> toString_raises v))"

definition safe_titles :: "json \<Rightarrow> bool" where
  "safe_titles aiTitles =
     (case aiTitles of JArr ts \<Rightarrow> list_all safe_entry ts | _ \<Rightarrow> False)"

section \<open>Inputs of the closed examples\<close>

definition intro_transcript :: TranscriptWithExtras where
  "intro_transcript =
     \<lparr>transcript_text = Some ''Welcome to the show'',
      chapters = Some [\<lparr>start = 5000, headline = ''Intro'', summary = ''Welcome'',
                        gist = ''Hi''\<rparr>]\<rparr>"

definition other_transcript :: TranscriptWithExtras where
  "other_transcript =
     \<lparr>transcript_text = Some ''Another episode'',
      chapters = Some [\<lparr>start = 0, headline = ''Opening'', summary = ''Hello'',
                        gist = ''Hi''\<rparr>]\<rparr>"

definition two_chapters :: TranscriptWithExtras where
  "two_chapters =
     \<lparr>transcript_text = Some ''Welcome to the show'',
      chapters = Some [\<lparr>start = 5000, headline = ''Intro'', summary = ''Welcome'',
                        gist = ''Hi''\<rparr>,
                       \<lparr>start = 70500, headline = ''Guests'', summary = ''Who is here'',
                        gist = ''Who''\<rparr>]\<rparr>"

definition six_list :: "string \<Rightarrow> Chapter list" where
  "six_list sixth =
     map (\<lambda>h. \<lparr>start = 0, headline = h, summary = ''s'', gist = ''g''\<rparr>)
         [''A'', ''B'', ''C'', ''D'', ''E'', sixth]"

definition six_chapters :: "string \<Rightarrow> TranscriptWithExtras" where
  "six_chapters sixth =
     \<lparr>transcript_text = Some ''Welcome to the show'', chapters = Some (six_list sixth)\<rparr>"

definition text_ending :: "string \<Rightarrow> TranscriptWithExtras" where
  "text_ending e =
     \<lparr>transcript_text = Some (replicate 500 (CHR ''a'') @ e), chapters = None\<rparr>"

definition long_chapters :: "Chapter list" where
  "long_chapters =
     map (\<lambda>i. \<lparr>start = i * 60000, headline = ''Part '' @ string_of_nat i, summary = ''s'',
               gist = ''g''\<rparr>) [0..<150]"

definition long_transcript :: TranscriptWithExtras where
  "long_transcript =
     \<lparr>transcript_text = Some ''Welcome to the show'', chapters = Some long_chapters\<rparr>"

definition long_tweet :: json where
  "long_tweet =
     JObj [(''twitter'', JStr (replicate 300 (CHR ''a''))), (''linkedin'', JStr ''l''),
           (''instagram'', JStr ''i''), (''tiktok'', JStr ''t''), (''youtube'', JStr ''y''),
           (''facebook'', JStr ''f'')]"

definition one_title_reply :: content where
  "one_title_reply =
     Parsed (JObj [(''titles'',
       JArr [JObj [(''index'', JNum 0), (''title'', JStr ''Cold open'')]])])"

definition odd_indices_reply :: content where
  "odd_indices_reply =
     Parsed (JObj [(''titles'',
       JArr [JObj [(''index'', JNum 7), (''title'', JStr ''Nowhere'')],
             JObj [(''index'', JNum 1), (''title'', JStr ''Meet the guests'')],
             JObj [(''index'', JNum 1), (''title'', JStr ''Again'')]])])"

definition null_entry_reply :: content where
  "null_entry_reply = Parsed (JObj [(''titles'', JArr [JNull])])"

text \<open>An endpoint whose first reply is unparsable and whose repair reply is \<^verbatim>\<open>{"titles":[null]}\<close>.\<close>

definition unparsable_then_null :: endpoint where
  "unparsable_then_null q =
     (if step_id q = ''repair-youtube-titles-json'' then Returns null_entry_reply
      else Returns Unparsable)"

definition object_titles_reply :: content where
  "object_titles_reply =
     Parsed (JObj [(''titles'', JObj [(''0'', JStr ''Intro''), (''1'', JStr ''Guests'')])])"

section \<open>The steps that catch everything\<close>

lemma summary_never_raises: "\<exists>s. fst (generateSummary schema ep t) = Inr s"
  by (auto simp: generateSummary_def split: sum.splits completion.splits option.splits)

lemma titles_never_raises: "\<exists>ts. fst (generateTitles schema ep t) = Inr ts"
  by (auto simp: generateTitles_def split: sum.splits completion.splits option.splits)

lemma social_never_raises: "\<exists>p. fst (generateSocialPosts schema ep t) = Inr p"
  by (auto simp: generateSocialPosts_def Let_def
      split: sum.splits completion.splits option.splits)

text \<open>
  C1. A transport failure of a completion call is never surfaced by a generation step.
  The summary, titles and social steps keep this (the three lemmas above). The timestamp
  step does not: its first completion call stands outside every \<^verbatim>\<open>try\<close>, so a call that
  rejects leaves \<^verbatim>\<open>generateYouTubeTimestamps\<close> as an exception, after one call.
\<close>

theorem youtube_transport_failure_escapes:
  "fst (generateYouTubeTimestamps (\<lambda>v. False) formatTimestamp (\<lambda>q. Throws) intro_transcript)
     = Inl TransportFailure
   \<and> length (snd (generateYouTubeTimestamps (\<lambda>v. False) formatTimestamp (\<lambda>q. Throws)
                    intro_transcript)) = 1"
  by (simp add: generateYouTubeTimestamps_def intro_transcript_def Let_def)

section \<open>Shapes of the returned artifacts\<close>

lemma length_social_error_text: "length social_error_text \<le> 280"
  by (simp add: social_error_text_def)

lemma length_fallback_twitter: "length fallback_twitter \<le> 280"
  by (simp add: fallback_twitter_def)

lemma enforce_twitter_limit_length: "length (twitter (enforce_twitter_limit p)) \<le> 280"
  by (simp add: enforce_twitter_limit_def)

lemma enforce_twitter_limit_over:
  assumes "length (twitter p) > 280"
  shows "enforce_twitter_limit p = p\<lparr>twitter := take 277 (twitter p) @ ''...''\<rparr>"
  using assms by (simp add: enforce_twitter_limit_def)

lemma social_fallback_unchanged: "enforce_twitter_limit social_fallback = social_fallback"
  using length_fallback_twitter by (simp add: enforce_twitter_limit_def social_fallback_def)

lemma social_posts_shape:
  "fst (generateSocialPosts schema ep t) = Inr p \<Longrightarrow> social_shape p"
  using length_social_error_text
  by (auto simp: generateSocialPosts_def Let_def enforce_twitter_limit_length
      social_shape_def social_error_fallback_def
      split: sum.splits completion.splits option.splits)

lemma titlesSchema_shape: "titlesSchema v = Some ts \<Longrightarrow> titles_shape ts"
  by (auto simp: titlesSchema_def titles_shape_def split: option.splits if_splits)

lemma titles_fallback_shape: "titles_shape titles_fallback"
  by (simp add: titles_shape_def titles_fallback_def)

lemma parse_and_validate_titles_shape:
  "parse_and_validate titlesSchema c = Some ts \<Longrightarrow> titles_shape ts"
  by (auto simp: parse_and_validate_def titlesSchema_shape split: option.splits)

lemma titles_shape_unless_outer_catch:
  assumes "fst (generateTitles titlesSchema ep t) = Inr ts"
    and "ts \<noteq> titles_error_fallback"
  shows "titles_shape ts"
  using assms
  by (auto simp: generateTitles_def titles_fallback_shape parse_and_validate_titles_shape
      split: sum.splits completion.splits option.splits)

text \<open>
  C2. Every value a generation step returns, fallbacks included, has the declared shape of
  its kind: three short, three long and three podcast titles and five to ten keywords;
  a \<^verbatim>\<open>twitter\<close> field of at most 280 characters. The social step keeps this on every path
  (\<open>social_posts_shape\<close>), and so does the titles step except in its outer \<^verbatim>\<open>catch\<close>
  (\<open>titles_shape_unless_outer_catch\<close>): when the first completion call rejects, the
  titles it returns have one entry in each of the four lists.
\<close>

theorem titles_error_fallback_breaks_shape:
  "fst (generateTitles titlesSchema (\<lambda>q. Throws) intro_transcript) = Inr titles_error_fallback
   \<and> length (youtubeShort titles_error_fallback) = 1
   \<and> length (youtubeLong titles_error_fallback) = 1
   \<and> length (podcastTitles titles_error_fallback) = 1
   \<and> length (seoKeywords titles_error_fallback) = 1
   \<and> \<not> titles_shape titles_error_fallback"
  by (simp add: generateTitles_def buildTitlesPrompt_def intro_transcript_def
      titles_error_fallback_def titles_shape_def)

text \<open>
  C5. When the social posts that passed validation (from the first reply, or from the
  repair) have a \<^verbatim>\<open>twitter\<close> field of more than 280 characters, the step returns those very
  posts with the field cut to its first 277 characters followed by three dots: 280
  characters ending in the ellipsis. The over-long field costs no repair call and no
  fallback.
\<close>

theorem twitter_over_280_is_truncated:
  assumes first: "ep (social_request (buildSocialPrompt t)) = Returns ca"
    and valid: "parse_and_validate schema ca = Some p
       \<or> (parse_and_validate schema ca = None \<and> ep social_repair_request = Returns cb
           \<and> parse_and_validate schema cb = Some p)"
    and over: "length (twitter p) > 280"
  shows "fst (generateSocialPosts schema ep t)
           = Inr (p\<lparr>twitter := take 277 (twitter p) @ ''...''\<rparr>)
         \<and> length (take 277 (twitter p) @ ''...'') = 280
         \<and> drop 277 (take 277 (twitter p) @ ''...'') = ''...''
         \<and> snd (generateSocialPosts schema ep t)
           = (if parse_and_validate schema ca = Some p
              then [social_request (buildSocialPrompt t)]
              else [social_request (buildSocialPrompt t), social_repair_request])"
proof -
  have "fst (generateSocialPosts schema ep t) = Inr (enforce_twitter_limit p)"
    using first valid by (auto simp: generateSocialPosts_def Let_def)
  moreover have "length (take 277 (twitter p)) = 277"
    using over by simp
  moreover have "snd (generateSocialPosts schema ep t)
           = (if parse_and_validate schema ca = Some p
              then [social_request (buildSocialPrompt t)]
              else [social_request (buildSocialPrompt t), social_repair_request])"
    using first valid by (auto simp: generateSocialPosts_def Let_def)
  ultimately show ?thesis
    using over by (simp add: enforce_twitter_limit_over)
qed

theorem twitter_over_280_is_truncated_witness:
  "length (replicate 300 (CHR ''a'')) > 280
   \<and> parse_and_validate socialPostsSchema (Parsed long_tweet)
       = Some \<lparr>twitter = replicate 300 (CHR ''a''), linkedin = ''l'', instagram = ''i'',
               tiktok = ''t'', youtube = ''y'', facebook = ''f''\<rparr>
   \<and> fst (generateSocialPosts socialPostsSchema (\<lambda>q. Returns (Parsed long_tweet))
          intro_transcript)
       = Inr \<lparr>twitter = replicate 277 (CHR ''a'') @ ''...'', linkedin = ''l'',
              instagram = ''i'', tiktok = ''t'', youtube = ''y'', facebook = ''f''\<rparr>
   \<and> length (replicate 277 (CHR ''a'') @ ''...'') = 280
   \<and> snd (generateSocialPosts socialPostsSchema (\<lambda>q. Returns (Parsed long_tweet))
          intro_transcript)
       = [social_request (buildSocialPrompt intro_transcript)]"
proof -
  have v: "parse_and_validate socialPostsSchema (Parsed long_tweet)
       = Some \<lparr>twitter = replicate 300 (CHR ''a''), linkedin = ''l'', instagram = ''i'',
               tiktok = ''t'', youtube = ''y'', facebook = ''f''\<rparr>"
    by (simp add: parse_and_validate_def socialPostsSchema_def string_field_def long_tweet_def)
  show ?thesis
    using twitter_over_280_is_truncated
      [where ep = "\<lambda>q. Returns (Parsed long_tweet)" and t = intro_transcript
         and ca = "Parsed long_tweet" and schema = socialPostsSchema and cb = Absent
         and p = "\<lparr>twitter = replicate 300 (CHR ''a''), linkedin = ''l'', instagram = ''i'',
               tiktok = ''t'', youtube = ''y'', facebook = ''f''\<rparr>"]
      v
    by simp
qed

section \<open>The completion calls of one step\<close>

lemma summary_calls:
  "snd (generateSummary schema ep t) = [] \<or>
   (\<exists>first. snd (generateSummary schema ep t) = [first] \<or>
            snd (generateSummary schema ep t) = [first, summary_repair_request])"
  by (auto simp: generateSummary_def split: sum.splits completion.splits option.splits)

lemma titles_calls:
  "snd (generateTitles schema ep t) = [] \<or>
   (\<exists>first. snd (generateTitles schema ep t) = [first] \<or>
            snd (generateTitles schema ep t) = [first, titles_repair_request])"
  by (auto simp: generateTitles_def split: sum.splits completion.splits option.splits)

lemma social_calls:
  "\<exists>first. snd (generateSocialPosts schema ep t) = [first] \<or>
           snd (generateSocialPosts schema ep t) = [first, social_repair_request]"
  by (auto simp: generateSocialPosts_def Let_def
      split: sum.splits completion.splits option.splits)

lemma youtube_calls:
  "snd (generateYouTubeTimestamps positive fmt ep t) = [] \<or>
   (\<exists>first. snd (generateYouTubeTimestamps positive fmt ep t) = [first] \<or>
            snd (generateYouTubeTimestamps positive fmt ep t) = [first, youtube_repair_request])"
  by (auto simp: generateYouTubeTimestamps_def Let_def
      split: sum.splits completion.splits option.splits)

text \<open>
  C3. Whatever the completion endpoint does, a generation step issues at most two
  completion calls: nothing, or its first call, or its first call followed by the one
  repair call. This holds for each of the four kinds, for every schema, every endpoint
  and every transcript.
\<close>

theorem at_most_two_completion_calls:
  "length (snd (generateSummary summary_schema ep t)) \<le> 2
   \<and> length (snd (generateSocialPosts social_schema ep t)) \<le> 2
   \<and> length (snd (generateTitles titles_schema ep t)) \<le> 2
   \<and> length (snd (generateYouTubeTimestamps positive fmt ep t)) \<le> 2
   \<and> (\<exists>first. snd (generateSummary summary_schema ep t) = []
          \<or> snd (generateSummary summary_schema ep t) = [first]
          \<or> snd (generateSummary summary_schema ep t) = [first, summary_repair_request])
   \<and> (\<exists>first. snd (generateSocialPosts social_schema ep t) = [first]
          \<or> snd (generateSocialPosts social_schema ep t) = [first, social_repair_request])
   \<and> (\<exists>first. snd (generateTitles titles_schema ep t) = []
          \<or> snd (generateTitles titles_schema ep t) = [first]
          \<or> snd (generateTitles titles_schema ep t) = [first, titles_repair_request])
   \<and> (\<exists>first. snd (generateYouTubeTimestamps positive fmt ep t) = []
          \<or> snd (generateYouTubeTimestamps positive fmt ep t) = [first]
          \<or> snd (generateYouTubeTimestamps positive fmt ep t)
              = [first, youtube_repair_request])"
proof -
  have s: "\<exists>first. snd (generateSummary summary_schema ep t) = []
          \<or> snd (generateSummary summary_schema ep t) = [first]
          \<or> snd (generateSummary summary_schema ep t) = [first, summary_repair_request]"
    using summary_calls [of summary_schema ep t] by auto
  have p: "\<exists>first. snd (generateSocialPosts social_schema ep t) = [first]
          \<or> snd (generateSocialPosts social_schema ep t) = [first, social_repair_request]"
    using social_calls [of social_schema ep t] by auto
  have ts: "\<exists>first. snd (generateTitles titles_schema ep t) = []
          \<or> snd (generateTitles titles_schema ep t) = [first]
          \<or> snd (generateTitles titles_schema ep t) = [first, titles_repair_request]"
    using titles_calls [of titles_schema ep t] by auto
  have y: "\<exists>first. snd (generateYouTubeTimestamps positive fmt ep t) = []
          \<or> snd (generateYouTubeTimestamps positive fmt ep t) = [first]
          \<or> snd (generateYouTubeTimestamps positive fmt ep t)
              = [first, youtube_repair_request]"
    using youtube_calls [of positive fmt ep t] by auto
  have ls: "length (snd (generateSummary summary_schema ep t)) \<le> 2"
    using s by auto
  have lp: "length (snd (generateSocialPosts social_schema ep t)) \<le> 2"
    using p by auto
  have lts: "length (snd (generateTitles titles_schema ep t)) \<le> 2"
    using ts by auto
  have ly: "length (snd (generateYouTubeTimestamps positive fmt ep t)) \<le> 2"
    using y by auto
  from s p ts y ls lp lts ly show ?thesis
    by blast
qed

section \<open>The timestamp step\<close>

text \<open>
  C7. When the transcript has no chapters (an empty sequence, or none at all), the
  timestamp step fails at once with its own error, and no completion call is issued.
\<close>

theorem no_chapters_fails_before_any_call:
  assumes "chapters t = None \<or> chapters t = Some []"
  shows "generateYouTubeTimestamps positive fmt ep t = (Inl NoChapters, [])"
  using assms by (auto simp: generateYouTubeTimestamps_def)

theorem no_chapters_fails_before_any_call_witness:
  "chapters \<lparr>transcript_text = Some ''hello'', chapters = Some []\<rparr> = Some []
   \<and> generateYouTubeTimestamps (\<lambda>v. False) formatTimestamp (\<lambda>q. Returns Absent)
        \<lparr>transcript_text = Some ''hello'', chapters = Some []\<rparr> = (Inl NoChapters, [])
   \<and> generateYouTubeTimestamps (\<lambda>v. False) formatTimestamp (\<lambda>q. Returns Absent)
        \<lparr>transcript_text = Some ''hello'', chapters = None\<rparr> = (Inl NoChapters, [])"
  using no_chapters_fails_before_any_call
      [of "\<lparr>transcript_text = Some ''hello'', chapters = Some []\<rparr>"
          "\<lambda>v. False" formatTimestamp "\<lambda>q. Returns Absent"]
    no_chapters_fails_before_any_call
      [of "\<lparr>transcript_text = Some ''hello'', chapters = None\<rparr>"
          "\<lambda>v. False" formatTimestamp "\<lambda>q. Returns Absent"]
  by simp

subsection \<open>A loop whose callback can raise\<close>

lemma map_raising_Inr:
  "map_raising f xs = Inr ys \<longleftrightarrow> list_all2 (\<lambda>x y. f x = Inr y) xs ys"
proof (induction xs arbitrary: ys)
  case Nil
  then show ?case by auto
next
  case (Cons x xs)
  show ?case
  proof (cases "f x")
    case (Inl e)
    then show ?thesis by (auto simp: list_all2_Cons1)
  next
    case (Inr y)
    then show ?thesis
      using Cons.IH by (cases "map_raising f xs") (auto simp: list_all2_Cons1)
  qed
qed

lemma map_raising_total:
  assumes "\<And>x. x \<in> set xs \<Longrightarrow> \<exists>y. f x = Inr y"
  shows "\<exists>ys. map_raising f xs = Inr ys"
  using assms
proof (induction xs)
  case Nil
  then show ?case by simp
next
  case (Cons x xs)
  then obtain y where "f x = Inr y" by auto
  moreover from Cons obtain ys where "map_raising f xs = Inr ys" by auto
  ultimately show ?case by simp
qed

subsection \<open>The chapter data\<close>

lemma length_chapterData_of [simp]: "length (chapterData_of cs) = length cs"
  by (simp add: chapterData_of_def)

lemma nth_chapterData_of:
  "i < length cs \<Longrightarrow>
     chapterData_of cs ! i =
       \<lparr>ch_index = i, ch_timestamp = start (cs ! i) div 1000, ch_headline = headline (cs ! i),
        ch_summary = summary (cs ! i), ch_gist = gist (cs ! i)\<rparr>"
  by (simp add: chapterData_of_def nth_enumerate_eq)

lemma chapterData_timestamps:
  "map (\<lambda>ch. fmt (ch_timestamp ch)) (chapterData_of cs) = map (\<lambda>c. fmt (start c div 1000)) cs"
  by (rule nth_equalityI) (simp_all add: nth_chapterData_of)

subsection \<open>The step in terms of the titles it read\<close>

lemma youtube_result:
  assumes "chapters t = Some cs" and "cs \<noteq> []"
    and "ep (youtube_request (youtube_prompt (chapterData_of (take 100 cs)))) = Returns c"
  shows "fst (generateYouTubeTimestamps positive fmt ep t)
           = combine fmt (aiTitles_of positive ep c) (chapterData_of (take 100 cs))"
  using assms
  by (simp add: generateYouTubeTimestamps_def Let_def aiTitles_of_def split: option.splits)

lemma youtube_Inr_has_chapters:
  assumes "fst (generateYouTubeTimestamps positive fmt ep t) = Inr r"
  shows "\<exists>cs c. chapters t = Some cs \<and> cs \<noteq> []
     \<and> ep (youtube_request (youtube_prompt (chapterData_of (take 100 cs)))) = Returns c"
  using assms
  by (auto simp: generateYouTubeTimestamps_def Let_def
      split: option.splits if_splits completion.splits)

lemma youtube_first_hundred:
  "generateYouTubeTimestamps positive fmt ep (t\<lparr>chapters := map_option (take 100) (chapters t)\<rparr>)
     = generateYouTubeTimestamps positive fmt ep t"
  by (cases "chapters t") (auto simp: generateYouTubeTimestamps_def Let_def)

lemma unparsable_replies_leave_no_titles:
  assumes "parse_or_default c = None"
    and "ep youtube_repair_request = Throws
       \<or> (\<exists>c2. ep youtube_repair_request = Returns c2 \<and> parse_or_empty c2 = None)"
  shows "aiTitles_of positive ep c = JArr []"
  using assms by (auto simp: aiTitles_of_def first_attempt_def repair_attempt_def)

subsection \<open>Combining titles and chapters\<close>

lemma combine_Inr:
  assumes "combine fmt a cd = Inr r"
  shows "\<exists>items. list_all2 (\<lambda>ch item. describe a ch = Inr item) cd items
      \<and> r = map (\<lambda>item. \<lparr>timestamp = fmt (fst item), description = snd item\<rparr>) items"
  using assms
  by (auto simp: combine_def map_raising_Inr split: sum.splits if_splits)

lemma describe_Inr:
  assumes "describe a ch = Inr item"
  shows "\<exists>ts found. a = JArr ts \<and> find_title ts (ch_index ch) = Inr found
     \<and> item = (ch_timestamp ch, title_or_headline found (ch_headline ch))"
  using assms by (auto simp: describe_def split: json.splits sum.splits)

lemma combine_length: "combine fmt a cd = Inr r \<Longrightarrow> length r = length cd"
  by (auto dest!: combine_Inr simp: list_all2_lengthD)

lemma combine_nth:
  assumes "combine fmt a cd = Inr r" and "i < length cd"
  shows "\<exists>ts found. a = JArr ts \<and> find_title ts (ch_index (cd ! i)) = Inr found
     \<and> r ! i = \<lparr>timestamp = fmt (ch_timestamp (cd ! i)),
                description = title_or_headline found (ch_headline (cd ! i))\<rparr>"
proof -
  from assms(1) obtain items where
    all: "list_all2 (\<lambda>ch item. describe a ch = Inr item) cd items"
    and r: "r = map (\<lambda>item. \<lparr>timestamp = fmt (fst item), description = snd item\<rparr>) items"
    using combine_Inr by blast
  from all assms(2) have len: "i < length items"
    and d: "describe a (cd ! i) = Inr (items ! i)"
    by (auto simp: list_all2_conv_all_nth)
  from d obtain ts found where "a = JArr ts" "find_title ts (ch_index (cd ! i)) = Inr found"
    "items ! i = (ch_timestamp (cd ! i), title_or_headline found (ch_headline (cd ! i)))"
    using describe_Inr by blast
  with r len show ?thesis by simp
qed

lemma combine_timestamps:
  assumes "combine fmt a cd = Inr r"
  shows "map timestamp r = map (\<lambda>ch. fmt (ch_timestamp ch)) cd"
proof (rule nth_equalityI)
  show "length (map timestamp r) = length (map (\<lambda>ch. fmt (ch_timestamp ch)) cd)"
    using assms by (simp add: combine_length)
next
  fix i assume "i < length (map timestamp r)"
  then have i: "i < length cd" and i': "i < length r"
    using assms by (simp_all add: combine_length)
  from combine_nth [OF assms i] obtain found where
    "r ! i = \<lparr>timestamp = fmt (ch_timestamp (cd ! i)),
               description = title_or_headline found (ch_headline (cd ! i))\<rparr>"
    by blast
  with i i' show "map timestamp r ! i = map (\<lambda>ch. fmt (ch_timestamp ch)) cd ! i"
    by simp
qed

lemma combine_no_titles:
  "combine fmt (JArr []) (chapterData_of cs)
     = Inr (map (\<lambda>c. \<lparr>timestamp = fmt (start c div 1000), description = JStr (headline c)\<rparr>)
              cs)"
proof -
  have m: "map_raising (describe (JArr [])) cd
      = Inr (map (\<lambda>ch. (ch_timestamp ch, JStr (ch_headline ch))) cd)" for cd
    by (induction cd) (simp_all add: describe_def title_or_headline_def)
  have "\<not> list_ex (\<lambda>item. toString_raises (snd item))
          (take 3 (map (\<lambda>ch. (ch_timestamp ch, JStr (ch_headline ch))) cd))"
    for cd :: "ChapterData list"
    by (auto simp: list_ex_iff dest!: in_set_takeD)
  with m have "combine fmt (JArr []) cd
      = Inr (map (\<lambda>ch. \<lparr>timestamp = fmt (ch_timestamp ch),
                        description = JStr (ch_headline ch)\<rparr>) cd)"
    for cd
    by (simp add: combine_def comp_def)
  moreover have "map (\<lambda>ch. \<lparr>timestamp = fmt (ch_timestamp ch),
                            description = JStr (ch_headline ch)\<rparr>) (chapterData_of cs)
      = map (\<lambda>c. \<lparr>timestamp = fmt (start c div 1000), description = JStr (headline c)\<rparr>) cs"
    by (rule nth_equalityI) (simp_all add: nth_chapterData_of)
  ultimately show ?thesis by simp
qed

subsection \<open>Looking a title up\<close>

lemma find_title_Some:
  "find_title ts i = Inr (Some e)
     \<Longrightarrow> e \<in> set ts \<and> get_prop e ''index'' = Some (JNum (int i))"
  by (induction ts) (auto split: if_splits)

lemma no_title_gives_headline:
  assumes "find_title ts i = Inr found" and "\<not> has_title (JArr ts) i"
  shows "title_or_headline found hl = JStr hl"
proof (cases found)
  case None
  then show ?thesis by (simp add: title_or_headline_def)
next
  case (Some e)
  with assms(1) have "e \<in> set ts" and "get_prop e ''index'' = Some (JNum (int i))"
    using find_title_Some by auto
  with assms(2) have "\<not> (case get_prop e ''title'' of None \<Rightarrow> False | Some v \<Rightarrow> truthy v)"
    by (auto simp: has_title_def list_ex_iff)
  with Some show ?thesis
    by (auto simp: title_or_headline_def split: option.splits)
qed

lemma find_title_safe:
  "list_all safe_entry ts \<Longrightarrow> \<exists>found. find_title ts i = Inr found
      \<and> (case found of None \<Rightarrow> True | Some e \<Rightarrow> safe_entry e)"
  by (induction ts) (auto simp: safe_entry_def)

lemma title_or_headline_safe:
  assumes "case found of None \<Rightarrow> True | Some e \<Rightarrow> safe_entry e"
  shows "\<not> toString_raises (title_or_headline found hl)"
  using assms by (auto simp: title_or_headline_def safe_entry_def split: option.splits)

lemma combine_safe:
  assumes "safe_titles a"
  shows "\<exists>r. combine fmt a cd = Inr r"
proof -
  from assms obtain ts where a: "a = JArr ts" and safe: "list_all safe_entry ts"
    by (auto simp: safe_titles_def split: json.splits)
  have each: "\<exists>item. describe a ch = Inr item \<and> \<not> toString_raises (snd item)" for ch
  proof -
    from safe obtain found where f: "find_title ts (ch_index ch) = Inr found"
      and s: "case found of None \<Rightarrow> True | Some e \<Rightarrow> safe_entry e"
      using find_title_safe by blast
    from s have "\<not> toString_raises (title_or_headline found (ch_headline ch))"
      by (rule title_or_headline_safe)
    with a f show ?thesis by (simp add: describe_def)
  qed
  then obtain items where items: "map_raising (describe a) cd = Inr items"
    using map_raising_total [of cd "describe a"] by blast
  have "\<not> toString_raises (snd item)" if "item \<in> set items" for item
  proof -
    from items have "list_all2 (\<lambda>ch item. describe a ch = Inr item) cd items"
      by (simp add: map_raising_Inr)
    with that obtain ch where "describe a ch = Inr item"
      by (auto simp: list_all2_conv_all_nth in_set_conv_nth)
    with each [of ch] show ?thesis by auto
  qed
  then have "\<not> list_ex (\<lambda>item. toString_raises (snd item)) (take 3 items)"
    by (auto simp: list_ex_iff dest: in_set_takeD)
  with items show ?thesis by (simp add: combine_def)
qed

subsection \<open>Length and timing of a result\<close>

lemma youtube_timing:
  assumes "chapters t = Some cs"
    and "fst (generateYouTubeTimestamps positive fmt ep t) = Inr r"
  shows "length r = min (length cs) 100
       \<and> map timestamp r = map (\<lambda>ch. fmt (start ch div 1000)) (take 100 cs)"
proof -
  from assms obtain c where ne: "cs \<noteq> []"
    and call: "ep (youtube_request (youtube_prompt (chapterData_of (take 100 cs)))) = Returns c"
    using youtube_Inr_has_chapters [of positive fmt ep t r] by auto
  have comb: "combine fmt (aiTitles_of positive ep c) (chapterData_of (take 100 cs)) = Inr r"
    using youtube_result [where t = t and cs = cs and ep = ep and c = c] assms ne call
    by simp
  from combine_length [OF comb] combine_timestamps [OF comb] show ?thesis
    by (simp add: chapterData_timestamps)
qed

lemma youtube_at_most_100:
  assumes "fst (generateYouTubeTimestamps positive fmt ep t) = Inr r"
  shows "length r \<le> 100"
proof -
  from assms obtain cs where "chapters t = Some cs"
    using youtube_Inr_has_chapters [of positive fmt ep t r] by auto
  with assms show ?thesis
    using youtube_timing [of t cs positive fmt ep r] by simp
qed

lemma long_chapters_length: "length long_chapters = 150"
  by (simp add: long_chapters_def)

lemma one_title_aiTitles:
  "aiTitles_of (\<lambda>v. False) ep one_title_reply
     = JArr [JObj [(''index'', JNum 0), (''title'', JStr ''Cold open'')]]"
  by (simp add: aiTitles_of_def first_attempt_def one_title_reply_def titles_or_empty_def)

lemma youtube_returns_for_safe_titles:
  assumes "chapters t = Some cs" and "cs \<noteq> []"
    and "ep (youtube_request (youtube_prompt (chapterData_of (take 100 cs)))) = Returns c"
    and "safe_titles (aiTitles_of positive ep c)"
  shows "\<exists>r. fst (generateYouTubeTimestamps positive fmt ep t) = Inr r"
  using youtube_result [where t = t and cs = cs and ep = ep and c = c] assms(1,2,3)
    combine_safe [OF assms(4)]
  by simp

lemma youtube_no_title_gives_headline:
  assumes "chapters t = Some cs"
    and "ep (youtube_request (youtube_prompt (chapterData_of (take 100 cs)))) = Returns c"
    and "fst (generateYouTubeTimestamps positive fmt ep t) = Inr r"
    and "i < length r" and "\<not> has_title (aiTitles_of positive ep c) i"
  shows "description (r ! i) = JStr (headline (cs ! i))"
proof -
  from assms(3) obtain cs' where "chapters t = Some cs'" "cs' \<noteq> []"
    using youtube_Inr_has_chapters by blast
  with assms(1) have ne: "cs \<noteq> []" by simp
  have comb: "combine fmt (aiTitles_of positive ep c) (chapterData_of (take 100 cs)) = Inr r"
    using youtube_result [where t = t and cs = cs and ep = ep and c = c] assms(1,2,3) ne
    by simp
  then have "length r = min (length cs) 100"
    by (simp add: combine_length)
  with assms(4) have i: "i < length (take 100 cs)" by simp
  then have i': "i < length (chapterData_of (take 100 cs))" by simp
  from combine_nth [OF comb i'] obtain ts found where
    a: "aiTitles_of positive ep c = JArr ts"
    and f: "find_title ts (ch_index (chapterData_of (take 100 cs) ! i)) = Inr found"
    and ri: "r ! i = \<lparr>timestamp = fmt (ch_timestamp (chapterData_of (take 100 cs) ! i)),
              description = title_or_headline found
                              (ch_headline (chapterData_of (take 100 cs) ! i))\<rparr>"
    by blast
  from f i have f': "find_title ts i = Inr found"
    by (simp add: nth_chapterData_of)
  from assms(5) a have "\<not> has_title (JArr ts) i" by simp
  with f' have "title_or_headline found (headline (cs ! i)) = JStr (headline (cs ! i))"
    by (rule no_title_gives_headline)
  with ri i show ?thesis
    by (simp add: nth_chapterData_of)
qed

text \<open>
  What holds of the results: cutting the chapters to the first 100 changes neither the
  result nor the calls, the first call carries the prompt built from the first 100, and a
  result has \<open>min n 100\<close> entries. In a result, every slot for which the titles read from
  the model hold no title has the chapter's own headline as its description, and a slot
  whose first entry of that index has a truthy title has that title. There is a result
  whenever the titles read are an array of entries that can be read (none of them
  \<^verbatim>\<open>null\<close>, each title convertible to a string).
\<close>

lemma results_keep_first_hundred_and_fall_back_per_slot:
  assumes "chapters t = Some cs" and "cs \<noteq> []"
    and "ep (youtube_request (youtube_prompt (chapterData_of (take 100 cs)))) = Returns c"
  shows "generateYouTubeTimestamps positive fmt ep (t\<lparr>chapters := Some (take 100 cs)\<rparr>)
           = generateYouTubeTimestamps positive fmt ep t
       \<and> hd (snd (generateYouTubeTimestamps positive fmt ep t))
           = youtube_request (youtube_prompt (chapterData_of (take 100 cs)))
       \<and> (safe_titles (aiTitles_of positive ep c)
            \<longrightarrow> (\<exists>r. fst (generateYouTubeTimestamps positive fmt ep t) = Inr r))
       \<and> (\<forall>r. fst (generateYouTubeTimestamps positive fmt ep t) = Inr r \<longrightarrow>
             length r = min (length cs) 100
             \<and> (\<forall>i < length r. \<not> has_title (aiTitles_of positive ep c) i
                   \<longrightarrow> description (r ! i) = JStr (headline (cs ! i))))"
proof -
  have first: "generateYouTubeTimestamps positive fmt ep (t\<lparr>chapters := Some (take 100 cs)\<rparr>)
           = generateYouTubeTimestamps positive fmt ep t"
    using youtube_first_hundred [of positive fmt ep t] assms(1) by simp
  have call: "hd (snd (generateYouTubeTimestamps positive fmt ep t))
           = youtube_request (youtube_prompt (chapterData_of (take 100 cs)))"
    using assms
    by (simp add: generateYouTubeTimestamps_def Let_def split: option.splits)
  have returns: "\<exists>r. fst (generateYouTubeTimestamps positive fmt ep t) = Inr r"
    if "safe_titles (aiTitles_of positive ep c)"
    using youtube_returns_for_safe_titles
      [where t = t and cs = cs and ep = ep and c = c and positive = positive and fmt = fmt]
      assms that
    by simp
  have len: "length r = min (length cs) 100"
    if "fst (generateYouTubeTimestamps positive fmt ep t) = Inr r" for r
    using youtube_timing [OF assms(1) that] by simp
  have slot: "description (r ! i) = JStr (headline (cs ! i))"
    if "fst (generateYouTubeTimestamps positive fmt ep t) = Inr r"
      and "i < length r" and "\<not> has_title (aiTitles_of positive ep c) i" for r i
    using youtube_no_title_gives_headline [where t = t and cs = cs and ep = ep and c = c]
      assms(1,3) that
    by simp
  from first call returns len slot show ?thesis by blast
qed

text \<open>
  With 150 chapters and a reply that titles slot 0 only: 100 entries, the model's title
  in slot 0, the headlines in slots 1 and 99.
\<close>

lemma results_of_150_chapters:
  "\<exists>r. fst (generateYouTubeTimestamps (\<lambda>v. False) formatTimestamp (\<lambda>q. Returns one_title_reply)
              long_transcript) = Inr r
       \<and> length long_chapters = 150
       \<and> length r = 100
       \<and> description (r ! 0) = JStr ''Cold open''
       \<and> description (r ! 1) = JStr ''Part 1''
       \<and> description (r ! 99) = JStr ''Part 99''"
proof -
  let ?ep = "\<lambda>q::request. Returns one_title_reply"
  have ch: "chapters long_transcript = Some long_chapters"
    by (simp add: long_transcript_def)
  have ne: "long_chapters \<noteq> []"
    using long_chapters_length by auto
  have safe: "safe_titles (aiTitles_of (\<lambda>v. False) ?ep one_title_reply)"
    by (simp add: one_title_aiTitles safe_titles_def safe_entry_def)
  note main = results_keep_first_hundred_and_fall_back_per_slot
    [where t = long_transcript and cs = long_chapters and ep = ?ep and c = one_title_reply
       and positive = "\<lambda>v. False" and fmt = formatTimestamp, OF ch ne, simplified]
  from main safe obtain r where
    r: "fst (generateYouTubeTimestamps (\<lambda>v. False) formatTimestamp ?ep long_transcript) = Inr r"
    by blast
  from main r have len: "length r = 100"
    by (simp add: long_chapters_length)
  have no1: "\<not> has_title (aiTitles_of (\<lambda>v. False) ?ep one_title_reply) 1"
    and no99: "\<not> has_title (aiTitles_of (\<lambda>v. False) ?ep one_title_reply) 99"
    by (simp_all add: one_title_aiTitles has_title_def)
  from main r len no1 have d1: "description (r ! 1) = JStr (headline (long_chapters ! 1))"
    by simp
  from main r len no99 have d99: "description (r ! 99) = JStr (headline (long_chapters ! 99))"
    by simp
  have h1: "headline (long_chapters ! 1) = ''Part 1''"
    by (simp add: long_chapters_def string_of_nat.simps)
  have h99: "headline (long_chapters ! 99) = ''Part 99''"
    by (simp add: long_chapters_def string_of_nat.simps)
  have res: "fst (generateYouTubeTimestamps (\<lambda>v. False) formatTimestamp ?ep long_transcript)
      = combine formatTimestamp (aiTitles_of (\<lambda>v. False) ?ep one_title_reply)
          (chapterData_of (take 100 long_chapters))"
    using youtube_result [where t = long_transcript and cs = long_chapters and ep = ?ep
        and c = one_title_reply] ch ne
    by simp
  have d0: "description (r ! 0) = JStr ''Cold open''"
  proof -
    have "0 < length (chapterData_of (take 100 long_chapters))"
      by (simp add: long_chapters_length)
    from combine_nth [OF r [unfolded res] this]
    show ?thesis
      by (auto simp: one_title_aiTitles nth_chapterData_of long_chapters_length
          title_or_headline_def)
  qed
  from r len d0 d1 d99 h1 h99 long_chapters_length show ?thesis by auto
qed

lemma youtube_title_is_used:
  assumes "chapters t = Some cs"
    and "ep (youtube_request (youtube_prompt (chapterData_of (take 100 cs)))) = Returns c"
    and "fst (generateYouTubeTimestamps positive fmt ep t) = Inr r"
    and "i < length r"
    and "aiTitles_of positive ep c = JArr ts"
    and "find_title ts i = Inr (Some e)"
    and "get_prop e ''title'' = Some v" and "truthy v"
  shows "description (r ! i) = v"
proof -
  from assms(3) obtain cs' where "chapters t = Some cs'" "cs' \<noteq> []"
    using youtube_Inr_has_chapters by blast
  with assms(1) have ne: "cs \<noteq> []" by simp
  have comb: "combine fmt (aiTitles_of positive ep c) (chapterData_of (take 100 cs)) = Inr r"
    using youtube_result [where t = t and cs = cs and ep = ep and c = c] assms(1,2,3) ne
    by simp
  then have "length r = min (length cs) 100"
    by (simp add: combine_length)
  with assms(4) have i: "i < length (take 100 cs)" by simp
  then have i': "i < length (chapterData_of (take 100 cs))" by simp
  from combine_nth [OF comb i'] assms(5) obtain found where
    f: "find_title ts (ch_index (chapterData_of (take 100 cs) ! i)) = Inr found"
    and ri: "r ! i = \<lparr>timestamp = fmt (ch_timestamp (chapterData_of (take 100 cs) ! i)),
              description = title_or_headline found
                              (ch_headline (chapterData_of (take 100 cs) ! i))\<rparr>"
    by auto
  from f i assms(6) have "found = Some e"
    by (simp add: nth_chapterData_of)
  with ri assms(7,8) show ?thesis
    by (simp add: title_or_headline_def)
qed

lemma combine_null_entry:
  assumes "cd \<noteq> []"
  shows "combine fmt (JArr (JNull # ts)) cd = Inl TypeError"
proof -
  from assms obtain x xs where "cd = x # xs" by (cases cd) auto
  then show ?thesis by (simp add: combine_def describe_def)
qed

text \<open>
  C6. With more than 100 chapters the timestamp step uses only the first 100, for the
  prompt and for the output, and every slot for which the model's reply holds no title gets
  the chapter's own headline. The first part holds, and so does the second of every
  result that is returned (the lemmas above). But a reply is read unchecked: with 150
  chapters and the reply \<^verbatim>\<open>{"titles":[null]}\<close>, which holds a title for no slot, the step
  returns no headline at all: \<^verbatim>\<open>aiTitles.find\<close> raises a \<^verbatim>\<open>TypeError\<close> outside every \<^verbatim>\<open>try\<close>.
\<close>

theorem no_title_reply_raises_instead_of_headlines:
  "fst (generateYouTubeTimestamps (\<lambda>v. False) formatTimestamp (\<lambda>q. Returns null_entry_reply)
         long_transcript) = Inl TypeError
   \<and> length long_chapters = 150
   \<and> aiTitles_of (\<lambda>v. False) (\<lambda>q. Returns null_entry_reply) null_entry_reply = JArr [JNull]
   \<and> (\<forall>i. \<not> has_title (JArr [JNull]) i)"
proof -
  let ?ep = "\<lambda>q::request. Returns null_entry_reply"
  have ch: "chapters long_transcript = Some long_chapters"
    by (simp add: long_transcript_def)
  have ne: "long_chapters \<noteq> []"
    using long_chapters_length by auto
  have a: "aiTitles_of (\<lambda>v. False) ?ep null_entry_reply = JArr [JNull]"
    by (simp add: aiTitles_of_def first_attempt_def null_entry_reply_def titles_or_empty_def)
  have cd: "chapterData_of (take 100 long_chapters) \<noteq> []"
    using long_chapters_length by (auto simp flip: length_0_conv)
  have "fst (generateYouTubeTimestamps (\<lambda>v. False) formatTimestamp ?ep long_transcript)
      = combine formatTimestamp (JArr [JNull]) (chapterData_of (take 100 long_chapters))"
    using youtube_result [where t = long_transcript and cs = long_chapters and ep = ?ep
        and c = null_entry_reply and positive = "\<lambda>v. False" and fmt = formatTimestamp] ch ne a
    by simp
  with combine_null_entry [OF cd] have r: "fst (generateYouTubeTimestamps (\<lambda>v. False)
      formatTimestamp ?ep long_transcript) = Inl TypeError"
    by simp
  have "\<not> has_title (JArr [JNull]) i" for i
    by (simp add: has_title_def)
  with r a long_chapters_length show ?thesis by blast
qed

text \<open>
  What holds of every result, for every reply: its length, order and timing follow the
  chapters. Two chapters; a reply with an index out of range and a duplicate index, and
  an unparsable reply followed by an unparsable repair.
\<close>

lemma odd_indices_result:
  "fst (generateYouTubeTimestamps (\<lambda>v. False) formatTimestamp (\<lambda>q. Returns odd_indices_reply)
         two_chapters)
     = Inr [\<lparr>timestamp = ''0:05'', description = JStr ''Intro''\<rparr>,
            \<lparr>timestamp = ''1:10'', description = JStr ''Meet the guests''\<rparr>]"
  by (simp add: generateYouTubeTimestamps_def two_chapters_def Let_def odd_indices_reply_def
      first_attempt_def titles_or_empty_def combine_def describe_def chapterData_of_def
      enumerate_eq_zip upt_conv_Cons title_or_headline_def formatTimestamp_def pad2_def
      string_of_nat.simps)

lemma unparsable_result:
  "fst (generateYouTubeTimestamps (\<lambda>v. False) formatTimestamp (\<lambda>q. Returns Unparsable)
         two_chapters)
     = Inr [\<lparr>timestamp = ''0:05'', description = JStr ''Intro''\<rparr>,
            \<lparr>timestamp = ''1:10'', description = JStr ''Guests''\<rparr>]"
  by (simp add: generateYouTubeTimestamps_def two_chapters_def Let_def
      first_attempt_def repair_attempt_def combine_def describe_def chapterData_of_def
      enumerate_eq_zip upt_conv_Cons title_or_headline_def formatTimestamp_def pad2_def
      string_of_nat.simps)

text \<open>
  C10. For a non-empty chapters sequence the result of the timestamp step has exactly
  \<open>min n 100\<close> entries, in chapter order, each timestamp formatted from \<open>start div 1000\<close>
  of its chapter, whatever the content of the model's reply. Every result is so
  (\<open>youtube_timing\<close>), and there is a result for titles that can be read
  (\<open>youtube_returns_for_safe_titles\<close>); but the titles of a reply are read unchecked. A
  reply \<^verbatim>\<open>{"titles":[null]}\<close>, or one whose \<^verbatim>\<open>titles\<close> is an object instead of an array,
  parses, and then \<^verbatim>\<open>aiTitles.find\<close> raises a \<^verbatim>\<open>TypeError\<close> outside every \<^verbatim>\<open>try\<close>: there is no
  result at all.
\<close>

theorem unchecked_titles_raise:
  "fst (generateYouTubeTimestamps (\<lambda>v. False) formatTimestamp (\<lambda>q. Returns null_entry_reply)
         two_chapters) = Inl TypeError
   \<and> fst (generateYouTubeTimestamps (\<lambda>v. False) formatTimestamp
           (\<lambda>q. Returns object_titles_reply) two_chapters) = Inl TypeError"
  by (simp add: generateYouTubeTimestamps_def two_chapters_def Let_def null_entry_reply_def
      object_titles_reply_def first_attempt_def titles_or_empty_def combine_def describe_def
      chapterData_of_def enumerate_eq_zip upt_conv_Cons)

text \<open>
  C8. A result of the timestamp step is a sequence of at most 100 entries
  (\<open>youtube_at_most_100\<close>), each a formatted timestamp and a description, and its first
  entry has the timestamp \<^verbatim>\<open>0:00\<close>. The last part fails: the first timestamp is the start of
  the first chapter, and a first chapter that starts five seconds in gives \<^verbatim>\<open>0:05\<close>.
\<close>

theorem first_timestamp_follows_first_chapter:
  "fst (generateYouTubeTimestamps (\<lambda>v. False) formatTimestamp (\<lambda>q. Returns Absent)
         intro_transcript)
     = Inr [\<lparr>timestamp = ''0:05'', description = JStr ''Intro''\<rparr>]
   \<and> formatTimestamp 0 = ''0:00''
   \<and> formatTimestamp 5 \<noteq> ''0:00''"
  by (simp add: generateYouTubeTimestamps_def intro_transcript_def Let_def
      first_attempt_def titles_or_empty_def combine_def describe_def chapterData_of_def
      enumerate_eq_zip upt_conv_Cons title_or_headline_def formatTimestamp_def pad2_def
      string_of_nat.simps)

section \<open>Two invalid replies\<close>

lemma buildSummaryPrompt_Inr:
  "buildSummaryPrompt t = Inr prompt \<Longrightarrow> \<exists>body. transcript_text t = Some body"
  by (auto simp: buildSummaryPrompt_def split: option.splits)

text \<open>
  C4, as amended. When the first reply and the repair reply both fail parsing or
  validation, the summary, social and titles steps raise nothing, and: the social step
  returns its fixed fallback and the titles step its fixed fallback, neither depending on
  the transcript; the summary step returns the first 500 characters of the transcript
  text as \<^verbatim>\<open>full\<close>, the first 200 as \<^verbatim>\<open>tldr\<close>, and fixed bullets and insights. The timestamp
  step checks a reply with \<^verbatim>\<open>JSON.parse\<close> only: when both replies fail parsing it raises
  nothing and returns one entry for each of the first 100 chapters, described by the
  chapter's own headline.
\<close>

theorem both_replies_invalid_gives_the_fallback:
  "(buildSummaryPrompt t = Inr prompt \<and> ep (summary_request prompt) = Returns ca
      \<and> parse_and_validate summary_schema ca = None
      \<and> ep summary_repair_request = Returns cb
      \<and> parse_and_validate summary_schema cb = None
     \<longrightarrow> (\<exists>body. transcript_text t = Some body
            \<and> fst (generateSummary summary_schema ep t) = Inr (summary_fallback body)))
   \<and> (ep (social_request (buildSocialPrompt t)) = Returns da
      \<and> parse_and_validate social_schema da = None
      \<and> ep social_repair_request = Returns db
      \<and> parse_and_validate social_schema db = None
     \<longrightarrow> fst (generateSocialPosts social_schema ep t) = Inr social_fallback)
   \<and> (buildTitlesPrompt t = Inr tprompt \<and> ep (titles_request tprompt) = Returns ea
      \<and> parse_and_validate titles_schema ea = None
      \<and> ep titles_repair_request = Returns eb
      \<and> parse_and_validate titles_schema eb = None
     \<longrightarrow> fst (generateTitles titles_schema ep t) = Inr titles_fallback)
   \<and> (chapters t = Some cs \<and> cs \<noteq> []
      \<and> ep (youtube_request (youtube_prompt (chapterData_of (take 100 cs)))) = Returns fa
      \<and> parse_or_default fa = None
      \<and> ep youtube_repair_request = Returns fb
      \<and> parse_or_empty fb = None
     \<longrightarrow> fst (generateYouTubeTimestamps positive fmt ep t)
           = Inr (map (\<lambda>c. \<lparr>timestamp = fmt (start c div 1000),
                               description = JStr (headline c)\<rparr>) (take 100 cs)))"
proof -
  have summary: "\<exists>body. transcript_text t = Some body
            \<and> fst (generateSummary summary_schema ep t) = Inr (summary_fallback body)"
    if "buildSummaryPrompt t = Inr prompt" "ep (summary_request prompt) = Returns ca"
      "parse_and_validate summary_schema ca = None" "ep summary_repair_request = Returns cb"
      "parse_and_validate summary_schema cb = None"
  proof -
    from that(1) obtain body where "transcript_text t = Some body"
      using buildSummaryPrompt_Inr by blast
    with that show ?thesis
      by (simp add: generateSummary_def summary_repair_failed_def)
  qed
  have social: "fst (generateSocialPosts social_schema ep t) = Inr social_fallback"
    if "ep (social_request (buildSocialPrompt t)) = Returns da"
      "parse_and_validate social_schema da = None" "ep social_repair_request = Returns db"
      "parse_and_validate social_schema db = None"
    using that by (simp add: generateSocialPosts_def Let_def social_fallback_unchanged)
  have titles: "fst (generateTitles titles_schema ep t) = Inr titles_fallback"
    if "buildTitlesPrompt t = Inr tprompt" "ep (titles_request tprompt) = Returns ea"
      "parse_and_validate titles_schema ea = None" "ep titles_repair_request = Returns eb"
      "parse_and_validate titles_schema eb = None"
    using that by (simp add: generateTitles_def)
  have youtube: "fst (generateYouTubeTimestamps positive fmt ep t)
           = Inr (map (\<lambda>c. \<lparr>timestamp = fmt (start c div 1000),
                               description = JStr (headline c)\<rparr>) (take 100 cs))"
    if "chapters t = Some cs" "cs \<noteq> []"
      "ep (youtube_request (youtube_prompt (chapterData_of (take 100 cs)))) = Returns fa"
      "parse_or_default fa = None" "ep youtube_repair_request = Returns fb"
      "parse_or_empty fb = None"
  proof -
    have "aiTitles_of positive ep fa = JArr []"
      using that(4,5,6) by (simp add: unparsable_replies_leave_no_titles)
    with youtube_result [where t = t and cs = cs and ep = ep and c = fa] that(1,2,3)
    show ?thesis by (simp add: combine_no_titles)
  qed
  from summary social titles youtube show ?thesis by blast
qed

theorem both_replies_invalid_gives_the_fallback_witness:
  "fst (generateSummary summarySchema (\<lambda>q. Returns Unparsable) intro_transcript)
     = Inr (summary_fallback ''Welcome to the show'')
   \<and> parse_and_validate summarySchema Unparsable = None
   \<and> fst (generateSocialPosts socialPostsSchema (\<lambda>q. Returns Unparsable) intro_transcript)
     = Inr social_fallback
   \<and> parse_and_validate socialPostsSchema Unparsable = None
   \<and> fst (generateTitles titlesSchema (\<lambda>q. Returns Unparsable) intro_transcript)
     = Inr titles_fallback
   \<and> parse_and_validate titlesSchema Unparsable = None
   \<and> fst (generateYouTubeTimestamps (\<lambda>v. False) formatTimestamp (\<lambda>q. Returns Unparsable)
          intro_transcript)
     = Inr [\<lparr>timestamp = formatTimestamp 5, description = JStr ''Intro''\<rparr>]"
proof -
  obtain p where p: "buildSummaryPrompt intro_transcript = Inr p"
    by (simp add: buildSummaryPrompt_def intro_transcript_def)
  obtain p' where p': "buildTitlesPrompt intro_transcript = Inr p'"
    by (simp add: buildTitlesPrompt_def intro_transcript_def)
  have ch: "chapters intro_transcript
      = Some [\<lparr>start = 5000, headline = ''Intro'', summary = ''Welcome'', gist = ''Hi''\<rparr>]"
    and tx: "transcript_text intro_transcript = Some ''Welcome to the show''"
    by (simp_all add: intro_transcript_def)
  from both_replies_invalid_gives_the_fallback
    [where t = intro_transcript and ep = "\<lambda>q. Returns Unparsable" and prompt = p
       and tprompt = p' and ca = Unparsable and cb = Unparsable and da = Unparsable
       and db = Unparsable and ea = Unparsable and eb = Unparsable and fa = Unparsable
       and fb = Unparsable and summary_schema = summarySchema
       and social_schema = socialPostsSchema and titles_schema = titlesSchema
       and positive = "\<lambda>v. False" and fmt = formatTimestamp
       and cs = "[\<lparr>start = 5000, headline = ''Intro'', summary = ''Welcome'',
                   gist = ''Hi''\<rparr>]"]
    p p' ch tx
  show ?thesis
    by (simp add: parse_and_validate_def)
qed

text \<open>
  C4 as stated fails: with two unparsable replies the summary step and the timestamp step
  return values that change with the transcript; and after an unparsable first reply, a
  repair reply \<^verbatim>\<open>{"titles":[null]}\<close>, which parses and which nothing validates, makes the
  timestamp step raise after its two calls.
\<close>

theorem summary_fallback_depends_on_transcript:
  "fst (generateSummary summarySchema (\<lambda>q. Returns Unparsable) intro_transcript)
     = Inr \<lparr>full = ''Welcome to the show'', bullets = [''Full transcript available''],
            insights = [''See transcript''], tldr = ''Welcome to the show''\<rparr>
   \<and> fst (generateSummary summarySchema (\<lambda>q. Returns Unparsable) other_transcript)
     = Inr \<lparr>full = ''Another episode'', bullets = [''Full transcript available''],
            insights = [''See transcript''], tldr = ''Another episode''\<rparr>
   \<and> fst (generateYouTubeTimestamps (\<lambda>v. False) formatTimestamp (\<lambda>q. Returns Unparsable)
          intro_transcript)
     = Inr [\<lparr>timestamp = ''0:05'', description = JStr ''Intro''\<rparr>]
   \<and> fst (generateYouTubeTimestamps (\<lambda>v. False) formatTimestamp (\<lambda>q. Returns Unparsable)
          other_transcript)
     = Inr [\<lparr>timestamp = ''0:00'', description = JStr ''Opening''\<rparr>]
   \<and> generateYouTubeTimestamps (\<lambda>v. False) formatTimestamp unparsable_then_null
          intro_transcript
     = (Inl TypeError,
        [youtube_request (youtube_prompt (chapterData_of
           [\<lparr>start = 5000, headline = ''Intro'', summary = ''Welcome'', gist = ''Hi''\<rparr>])),
         youtube_repair_request])"
  by (simp add: generateSummary_def buildSummaryPrompt_def intro_transcript_def
      other_transcript_def parse_and_validate_def summary_repair_failed_def summary_fallback_def
      generateYouTubeTimestamps_def Let_def first_attempt_def repair_attempt_def
      combine_def describe_def chapterData_of_def enumerate_eq_zip upt_conv_Cons
      title_or_headline_def formatTimestamp_def pad2_def string_of_nat.simps
      unparsable_then_null_def youtube_request_def youtube_repair_request_def
      null_entry_reply_def titles_or_empty_def)

section \<open>Prompts\<close>

subsection \<open>A text that occurs in a prompt\<close>

lemma sublist_between: "sublist x (a @ x @ b)"
  unfolding sublist_def by blast

lemma sublist_in_middle:
  assumes "sublist x m"
  shows "sublist x (a @ m @ b)"
proof -
  from assms obtain ps ss where "m = ps @ x @ ss"
    unfolding sublist_def by blast
  then have "a @ m @ b = (a @ ps) @ x @ (ss @ b)" by simp
  then show ?thesis
    unfolding sublist_def by blast
qed

lemma sublist_join:
  "x \<in> set xs \<Longrightarrow> sublist x (join sep xs)"
proof (induction sep xs rule: join.induct)
  case (1 sep)
  then show ?case by simp
next
  case (2 sep x')
  then show ?case by simp
next
  case (3 sep x' y ys)
  show ?case
  proof (cases "x = x'")
    case True
    then show ?thesis
      using sublist_between [of x "[]" "sep @ join sep (y # ys)"] by simp
  next
    case False
    with 3 have "sublist x (join sep (y # ys))" by simp
    then have "sublist x ((x' @ sep) @ join sep (y # ys) @ [])"
      by (rule sublist_in_middle)
    then show ?thesis by simp
  qed
qed

lemma headline_in_summary_line: "sublist (headline ch) (summary_chapter_line (i, ch))"
  using sublist_between [of "headline ch" "string_of_nat (i + 1) @ ''. ''" "'' - '' @ summary ch"]
  by (simp add: summary_chapter_line_def)

lemma headline_in_topic_line: "sublist (headline ch) (topic_line (i, ch))"
  using sublist_between [of "headline ch" "string_of_nat (i + 1) @ ''. ''" "[]"]
  by (simp add: topic_line_def)

lemma headline_in_chapter_block:
  "sublist (ch_headline cd) (youtube_chapter_block (i, cd))"
  using sublist_between [of "ch_headline cd"
      "''Chapter '' @ string_of_nat i @ '': ['' @ string_of_nat (ch_timestamp cd) @ ''s]\<newline>Context: ''"
      "''\<newline>Summary: '' @ ch_summary cd"]
  by (simp add: youtube_chapter_block_def)

lemma sublist_trans: "sublist x y \<Longrightarrow> sublist y z \<Longrightarrow> sublist x z"
  by (rule sublist_order.order_trans)

lemma headline_in_lines:
  assumes "i < length chs" and "\<And>j c. sublist (headline c) (line (j, c))"
  shows "sublist (headline (chs ! i)) (join sep (map line (enumerate 0 chs)))"
proof -
  from assms(1) have "line (i, chs ! i) \<in> set (map line (enumerate 0 chs))"
    by (auto simp: in_set_enumerate_eq image_iff intro!: bexI [of _ "(i, chs ! i)"])
  then have "sublist (line (i, chs ! i)) (join sep (map line (enumerate 0 chs)))"
    by (rule sublist_join)
  with assms(2) [of "chs ! i" i] show ?thesis
    by (rule sublist_trans)
qed

lemma summary_prompt_lists_every_chapter:
  assumes "buildSummaryPrompt t = Inr prompt" and "chapters t = Some chs" and "i < length chs"
  shows "sublist (headline (chs ! i)) prompt"
proof -
  from assms obtain body where body: "transcript_text t = Some body"
    by (auto simp: buildSummaryPrompt_def split: option.splits)
  from assms(3) have ne: "length chs > 0" by (cases chs) simp_all
  have "sublist (headline (chs ! i)) (join ''\<newline>'' (map summary_chapter_line (enumerate 0 chs)))"
    using assms(3) headline_in_summary_line by (rule headline_in_lines)
  then have "sublist (headline (chs ! i))
       ((summary_prompt_head @ take 3000 body @ summary_prompt_middle
          @ ''\<newline>AUTO-DETECTED CHAPTERS:\<newline>'')
        @ join ''\<newline>'' (map summary_chapter_line (enumerate 0 chs))
        @ summary_prompt_tail)"
    by (rule sublist_in_middle)
  moreover have "prompt = (summary_prompt_head @ take 3000 body @ summary_prompt_middle
          @ ''\<newline>AUTO-DETECTED CHAPTERS:\<newline>'')
        @ join ''\<newline>'' (map summary_chapter_line (enumerate 0 chs))
        @ summary_prompt_tail"
    using assms(1,2) body ne by (simp add: buildSummaryPrompt_def)
  ultimately show ?thesis by simp
qed

lemma titles_prompt_lists_every_chapter:
  assumes "buildTitlesPrompt t = Inr prompt" and "chapters t = Some chs" and "i < length chs"
  shows "sublist (headline (chs ! i)) prompt"
proof -
  from assms obtain body where body: "transcript_text t = Some body"
    by (auto simp: buildTitlesPrompt_def split: option.splits)
  from assms(3) have ne: "length chs > 0" by (cases chs) simp_all
  have "sublist (headline (chs ! i)) (join ''\<newline>'' (map topic_line (enumerate 0 chs)))"
    using assms(3) headline_in_topic_line by (rule headline_in_lines)
  then have "sublist (headline (chs ! i))
       ((titles_prompt_head @ take 2000 body @ titles_prompt_middle
          @ ''MAIN TOPICS COVERED:\<newline>'')
        @ join ''\<newline>'' (map topic_line (enumerate 0 chs))
        @ titles_prompt_tail)"
    by (rule sublist_in_middle)
  moreover have "prompt = (titles_prompt_head @ take 2000 body @ titles_prompt_middle
          @ ''MAIN TOPICS COVERED:\<newline>'')
        @ join ''\<newline>'' (map topic_line (enumerate 0 chs))
        @ titles_prompt_tail"
    using assms(1,2) body ne by (simp add: buildTitlesPrompt_def)
  ultimately show ?thesis by simp
qed

lemma youtube_prompt_lists_chapters:
  assumes "i < length cs"
  shows "sublist (headline (cs ! i)) (youtube_prompt (chapterData_of cs))"
proof -
  let ?cd = "chapterData_of cs"
  from assms have i: "i < length ?cd" by simp
  then have "youtube_chapter_block (i, ?cd ! i) \<in> set (map youtube_chapter_block (enumerate 0 ?cd))"
    by (auto simp: in_set_enumerate_eq image_iff intro!: bexI [of _ "(i, ?cd ! i)"])
  then have "sublist (youtube_chapter_block (i, ?cd ! i))
       (join ''\<newline>\<newline>'' (map youtube_chapter_block (enumerate 0 ?cd)))"
    by (rule sublist_join)
  with headline_in_chapter_block [of "?cd ! i" i]
  have "sublist (ch_headline (?cd ! i))
       (join ''\<newline>\<newline>'' (map youtube_chapter_block (enumerate 0 ?cd)))"
    by (rule sublist_trans)
  then have "sublist (ch_headline (?cd ! i))
       ((youtube_prompt_head @ string_of_nat (length ?cd) @ youtube_prompt_middle)
        @ join ''\<newline>\<newline>'' (map youtube_chapter_block (enumerate 0 ?cd))
        @ youtube_prompt_tail)"
    by (rule sublist_in_middle)
  with assms show ?thesis
    by (simp add: youtube_prompt_def nth_chapterData_of)
qed

lemma youtube_reads_first_hundred_chapters_only:
  "generateYouTubeTimestamps positive fmt ep
       (t\<lparr>transcript_text := any, chapters := map_option (take 100) (chapters t)\<rparr>)
     = generateYouTubeTimestamps positive fmt ep t"
  by (cases "chapters t") (auto simp: generateYouTubeTimestamps_def Let_def)

text \<open>
  C9, as amended. For every transcript and every kind: the summary prompt reads the
  transcript text only through its first 3000 characters and the titles prompt only
  through its first 2000, and each of the two holds the headline of every chapter; the
  social prompt reads the text only through its first 500 characters and the chapters
  only through the first five; the timestamp step reads no transcript text and the
  chapters only through the first 100, and the prompt of its first call holds the
  headline of each of these.
\<close>

theorem prompts_truncate_text_and_list_chapters:
  "buildSummaryPrompt (t\<lparr>transcript_text := map_option (take 3000) (transcript_text t)\<rparr>)
     = buildSummaryPrompt t
   \<and> buildTitlesPrompt (t\<lparr>transcript_text := map_option (take 2000) (transcript_text t)\<rparr>)
     = buildTitlesPrompt t
   \<and> buildSocialPrompt (t\<lparr>transcript_text := map_option (take 500) (transcript_text t),
                           chapters := map_option (take 5) (chapters t)\<rparr>)
     = buildSocialPrompt t
   \<and> generateYouTubeTimestamps positive fmt ep
        (t\<lparr>transcript_text := any, chapters := map_option (take 100) (chapters t)\<rparr>)
     = generateYouTubeTimestamps positive fmt ep t
   \<and> (\<forall>prompt chs. buildSummaryPrompt t = Inr prompt \<and> chapters t = Some chs
         \<longrightarrow> (\<forall>i < length chs. sublist (headline (chs ! i)) prompt))
   \<and> (\<forall>prompt chs. buildTitlesPrompt t = Inr prompt \<and> chapters t = Some chs
         \<longrightarrow> (\<forall>i < length chs. sublist (headline (chs ! i)) prompt))
   \<and> (\<forall>chs. chapters t = Some chs \<and> chs \<noteq> []
         \<longrightarrow> user_prompt (hd (snd (generateYouTubeTimestamps positive fmt ep t)))
               = youtube_prompt (chapterData_of (take 100 chs))
             \<and> (\<forall>i < min (length chs) 100.
                   sublist (headline (chs ! i))
                     (youtube_prompt (chapterData_of (take 100 chs)))))"
proof -
  have s: "buildSummaryPrompt (t\<lparr>transcript_text := map_option (take 3000) (transcript_text t)\<rparr>)
     = buildSummaryPrompt t"
    by (cases "transcript_text t")
       (simp_all add: buildSummaryPrompt_def split: option.splits)
  have ti: "buildTitlesPrompt (t\<lparr>transcript_text := map_option (take 2000) (transcript_text t)\<rparr>)
     = buildTitlesPrompt t"
    by (cases "transcript_text t")
       (simp_all add: buildTitlesPrompt_def split: option.splits)
  have so1: "social_summary (t\<lparr>transcript_text := map_option (take 500) (transcript_text t),
                           chapters := map_option (take 5) (chapters t)\<rparr>) = social_summary t"
    by (cases "transcript_text t"; cases "chapters t")
       (auto simp: social_summary_def split: list.splits)
  have so2: "social_topics (t\<lparr>transcript_text := map_option (take 500) (transcript_text t),
                           chapters := map_option (take 5) (chapters t)\<rparr>) = social_topics t"
    by (cases "chapters t") (simp_all add: social_topics_def)
  from so1 so2 have so: "buildSocialPrompt (t\<lparr>transcript_text := map_option (take 500) (transcript_text t),
                           chapters := map_option (take 5) (chapters t)\<rparr>)
     = buildSocialPrompt t"
    by (simp add: buildSocialPrompt_def)
  have yt: "generateYouTubeTimestamps positive fmt ep
        (t\<lparr>transcript_text := any, chapters := map_option (take 100) (chapters t)\<rparr>)
     = generateYouTubeTimestamps positive fmt ep t"
    by (rule youtube_reads_first_hundred_chapters_only)
  have ls: "sublist (headline (chs ! i)) prompt"
    if "buildSummaryPrompt t = Inr prompt" "chapters t = Some chs" "i < length chs"
    for prompt chs i
    using that by (rule summary_prompt_lists_every_chapter)
  have lt: "sublist (headline (chs ! i)) prompt"
    if "buildTitlesPrompt t = Inr prompt" "chapters t = Some chs" "i < length chs"
    for prompt chs i
    using that by (rule titles_prompt_lists_every_chapter)
  have yp: "user_prompt (hd (snd (generateYouTubeTimestamps positive fmt ep t)))
               = youtube_prompt (chapterData_of (take 100 chs))"
    if "chapters t = Some chs" "chs \<noteq> []" for chs
    using that
    by (simp add: generateYouTubeTimestamps_def Let_def youtube_request_def
        split: completion.splits option.splits)
  have yl: "sublist (headline (chs ! i)) (youtube_prompt (chapterData_of (take 100 chs)))"
    if "i < min (length chs) 100" for chs :: "Chapter list" and i
  proof -
    from that have "i < length (take 100 chs)" by simp
    from youtube_prompt_lists_chapters [OF this] that show ?thesis by simp
  qed
  from s ti so yt ls lt yp yl show ?thesis
    by blast
qed

text \<open>
  Six chapters, the sixth headed \<^verbatim>\<open>F\<close>: the summary prompt, the titles prompt and the
  prompt of the timestamp step all hold that headline.
\<close>

theorem prompts_truncate_text_and_list_chapters_witness:
  "(\<exists>prompt. buildSummaryPrompt (six_chapters ''F'') = Inr prompt \<and> sublist ''F'' prompt)
   \<and> (\<exists>prompt. buildTitlesPrompt (six_chapters ''F'') = Inr prompt \<and> sublist ''F'' prompt)
   \<and> chapters (six_chapters ''F'') = Some (six_list ''F'')
   \<and> headline (six_list ''F'' ! 5) = ''F''
   \<and> sublist ''F'' (youtube_prompt (chapterData_of (take 100 (six_list ''F''))))
   \<and> user_prompt (hd (snd (generateYouTubeTimestamps (\<lambda>v. False) formatTimestamp
                              (\<lambda>q. Returns Absent) (six_chapters ''F''))))
       = youtube_prompt (chapterData_of (take 100 (six_list ''F'')))"
proof -
  obtain p where p: "buildSummaryPrompt (six_chapters ''F'') = Inr p"
    by (simp add: buildSummaryPrompt_def six_chapters_def)
  obtain p' where p': "buildTitlesPrompt (six_chapters ''F'') = Inr p'"
    by (simp add: buildTitlesPrompt_def six_chapters_def)
  have ch: "chapters (six_chapters ''F'') = Some (six_list ''F'')"
    by (simp add: six_chapters_def six_list_def)
  have len: "length (six_list ''F'') = 6" and ne: "six_list ''F'' \<noteq> []"
    and h: "headline (six_list ''F'' ! 5) = ''F''"
    by (simp_all add: six_list_def)
  note main = prompts_truncate_text_and_list_chapters
    [where t = "six_chapters ''F''" and positive = "\<lambda>v. False" and fmt = formatTimestamp
       and ep = "\<lambda>q. Returns Absent" and any = None]
  have five: "(5::nat) < length (six_list ''F'')" and five': "(5::nat) < min (length (six_list ''F'')) 100"
    by (simp_all add: len)
  from main have "\<forall>prompt chs. buildSummaryPrompt (six_chapters ''F'') = Inr prompt
         \<and> chapters (six_chapters ''F'') = Some chs
         \<longrightarrow> (\<forall>i < length chs. sublist (headline (chs ! i)) prompt)"
    by (elim conjE)
  with p ch five have "sublist (headline (six_list ''F'' ! 5)) p"
    by blast
  with h have a: "sublist ''F'' p" by simp
  from main have "\<forall>prompt chs. buildTitlesPrompt (six_chapters ''F'') = Inr prompt
         \<and> chapters (six_chapters ''F'') = Some chs
         \<longrightarrow> (\<forall>i < length chs. sublist (headline (chs ! i)) prompt)"
    by (elim conjE)
  with p' ch five have "sublist (headline (six_list ''F'' ! 5)) p'"
    by blast
  with h have b: "sublist ''F'' p'" by simp
  from main have "\<forall>chs. chapters (six_chapters ''F'') = Some chs \<and> chs \<noteq> []
         \<longrightarrow> user_prompt (hd (snd (generateYouTubeTimestamps (\<lambda>v. False) formatTimestamp
                                       (\<lambda>q. Returns Absent) (six_chapters ''F''))))
               = youtube_prompt (chapterData_of (take 100 chs))
             \<and> (\<forall>i < min (length chs) 100.
                   sublist (headline (chs ! i))
                     (youtube_prompt (chapterData_of (take 100 chs))))"
    by (elim conjE)
  with ch ne have c: "user_prompt (hd (snd (generateYouTubeTimestamps (\<lambda>v. False) formatTimestamp
                                       (\<lambda>q. Returns Absent) (six_chapters ''F''))))
               = youtube_prompt (chapterData_of (take 100 (six_list ''F'')))"
    and d: "\<forall>i < min (length (six_list ''F'')) 100.
                   sublist (headline (six_list ''F'' ! i))
                     (youtube_prompt (chapterData_of (take 100 (six_list ''F''))))"
    by blast+
  from d five' have "sublist (headline (six_list ''F'' ! 5))
                     (youtube_prompt (chapterData_of (take 100 (six_list ''F''))))"
    by blast
  with h have e: "sublist ''F'' (youtube_prompt (chapterData_of (take 100 (six_list ''F''))))"
    by simp
  from p p' a b ch h c e show ?thesis by blast
qed

text \<open>
  C9 as stated fails: two transcripts with the same text and the same first five
  chapters, differing in the headline of the sixth, get different summary prompts,
  different titles prompts and different timestamp prompts; and two transcripts without
  chapters whose texts differ in their character 501 get the same social prompt, so the
  prefix the social prompt reads is shorter than 2000 characters.
\<close>

theorem prompts_are_not_limited_to_five_chapters:
  "buildSummaryPrompt (six_chapters ''F'') \<noteq> buildSummaryPrompt (six_chapters ''G'')
   \<and> buildTitlesPrompt (six_chapters ''F'') \<noteq> buildTitlesPrompt (six_chapters ''G'')
   \<and> youtube_prompt (chapterData_of (take 100 (six_list ''F'')))
       \<noteq> youtube_prompt (chapterData_of (take 100 (six_list ''G'')))
   \<and> take 5 (six_list ''F'') = take 5 (six_list ''G'')
   \<and> chapters (six_chapters ''F'') = Some (six_list ''F'')
   \<and> chapters (six_chapters ''G'') = Some (six_list ''G'')
   \<and> transcript_text (six_chapters ''F'') = transcript_text (six_chapters ''G'')
   \<and> buildSocialPrompt (text_ending ''x'') = buildSocialPrompt (text_ending ''y'')
   \<and> map_option (take 2000) (transcript_text (text_ending ''x''))
       \<noteq> map_option (take 2000) (transcript_text (text_ending ''y''))"
  by (simp add: buildSummaryPrompt_def buildTitlesPrompt_def six_chapters_def six_list_def
      enumerate_eq_zip summary_chapter_line_def topic_line_def upt_conv_Cons
      youtube_prompt_def chapterData_of_def youtube_chapter_block_def
      buildSocialPrompt_def social_summary_def social_topics_def text_ending_def or_else_def)

end
